theory Spec2Isabelle
  imports Main "HOL-Library.Word"
begin

section \<open>Windows and SAPI types used by the recognizer\<close>

text \<open>
  \<^verbatim>\<open>speech_recognition.cpp\<close> drives the Windows speech API through COM. The values it
  inspects are modelled with their Windows SDK meaning: an \<^verbatim>\<open>HRESULT\<close> is a signed
  32-bit integer, \<^verbatim>\<open>FAILED(hr)\<close> is \<^verbatim>\<open>hr < 0\<close>, a pointer or handle is an address
  with 0 for \<^verbatim>\<open>nullptr\<close>, a \<^verbatim>\<open>std::string\<close> is its byte sequence and a
  \<^verbatim>\<open>std::wstring\<close> its sequence of 16-bit units.
\<close>

type_synonym HRESULT = "32 word"
type_synonym DWORD = "32 word"
type_synonym ULONG = "32 word"
type_synonym ptr = nat
type_synonym wstring = "16 word list"
type_synonym LPWSTR = "wstring option"

definition nullptr :: ptr where
  "nullptr = 0"

definition S_OK :: HRESULT where
  "S_OK = 0"

definition S_FALSE :: HRESULT where
  "S_FALSE = 1"

definition E_FAIL :: HRESULT where
  "E_FAIL = 0x80004005"

definition RPC_E_CHANGED_MODE :: HRESULT where
  "RPC_E_CHANGED_MODE = 0x80010106"

definition FAILED :: "HRESULT \<Rightarrow> bool" where
  "FAILED hr = (sint hr < 0)"

definition SUCCEEDED :: "HRESULT \<Rightarrow> bool" where
  "SUCCEEDED hr = (0 \<le> sint hr)"

definition WAIT_OBJECT_0 :: DWORD where
  "WAIT_OBJECT_0 = 0"

definition WAIT_TIMEOUT :: DWORD where
  "WAIT_TIMEOUT = 258"

datatype SPEVENTENUM = SPEI_RECOGNITION | SPEI_FALSE_RECOGNITION | SPEI_OTHER nat

datatype SPEVENTLPARAMTYPE =
    SPET_LPARAM_IS_UNDEFINED
  | SPET_LPARAM_IS_TOKEN
  | SPET_LPARAM_IS_OBJECT
  | SPET_LPARAM_IS_POINTER
  | SPET_LPARAM_IS_STRING

datatype SPRULESTATE = SPRS_INACTIVE | SPRS_ACTIVE

record SPEVENT =
  eEventId :: SPEVENTENUM
  elParamType :: SPEVENTLPARAMTYPE
  lParam :: ptr

section \<open>The session object\<close>

text \<open>
  A \<^verbatim>\<open>std::function\<close> slot is empty (\<open>None\<close>) or holds a callable, named by a
  number. \<open>recognition_thread\<close> is the \<^verbatim>\<open>joinable()\<close> state of the
  \<^verbatim>\<open>std::thread\<close> member. The members are named as in the header, without the
  trailing underscore.
\<close>

type_synonym callback = "nat option"

record SpeechRecognition =
  recognizer :: ptr
  "context" :: ptr
  grammar :: ptr
  recognition_event :: ptr
  is_initialized :: bool
  is_listening :: bool
  should_stop :: bool
  com_initialized :: bool
  recognition_thread :: bool
  result_callback :: callback
  error_callback :: callback
  status_callback :: callback

text \<open>The object as the constructor and the member initialisers leave it.\<close>

definition constructed :: SpeechRecognition where
  "constructed =
     \<lparr>recognizer = nullptr, context = nullptr, grammar = nullptr,
      recognition_event = nullptr, is_initialized = False, is_listening = False,
      should_stop = False, com_initialized = False, recognition_thread = False,
      result_callback = None, error_callback = None, status_callback = None\<rparr>"

section \<open>Observable effects\<close>

text \<open>
  Every function of the class returns, next to its result and the new object, the list
  of what it did to the outside, in program order: the native calls with what they
  returned, the operations on \<^verbatim>\<open>callback_mutex_\<close>, the accesses to the three
  callback slots and the invocations of the callables stored there.
\<close>

datatype slot = result_slot | error_slot | status_slot

datatype effect =
    CoInitializeEx HRESULT
  | CoUninitialize
  | CoCreateInstance HRESULT ptr
  | CreateRecoContext ptr HRESULT ptr
  | SetInterest ptr HRESULT
  | GetNotifyEventHandle ptr ptr
  | CreateGrammar ptr HRESULT ptr
  | LoadDictation ptr HRESULT
  | SetDictationState ptr SPRULESTATE HRESULT
  | Release ptr
  | CloseHandle ptr
  | WaitForSingleObject ptr DWORD
  | GetEvents ptr HRESULT ULONG
  | GetText ptr HRESULT LPWSTR
  | CoTaskMemFree LPWSTR
  | thread_start
  | thread_join
  | mutex_lock
  | mutex_unlock
  | slot_read slot
  | slot_write slot
  | result_call nat string bool
  | error_call nat string
  | status_call nat string

type_synonym trace = "effect list"

section \<open>What the engine answers\<close>

text \<open>
  The speech engine is outside the program. One value of \<open>sapi\<close> fixes what each
  native call answers during one call of a member function: the \<^verbatim>\<open>HRESULT\<close>, and
  for a call with an out parameter the pointer found there afterwards.
  \<open>WideCharToMultiByte\<close> is the conversion of a non-empty wide string to UTF-8 as
  the two calls in \<^verbatim>\<open>WideToUtf8\<close> perform it.
\<close>

record sapi =
  CoInitializeEx_hr :: HRESULT
  CoCreateInstance_hr :: HRESULT
  CoCreateInstance_out :: ptr
  CreateRecoContext_hr :: HRESULT
  CreateRecoContext_out :: ptr
  SetInterest_hr :: HRESULT
  NotifyEventHandle :: ptr
  CreateGrammar_hr :: HRESULT
  CreateGrammar_out :: ptr
  LoadDictation_hr :: HRESULT
  SetDictationState_hr :: "SPRULESTATE \<Rightarrow> HRESULT"
  GetText_reply :: "ptr \<Rightarrow> HRESULT \<times> LPWSTR"
  WideCharToMultiByte :: "wstring \<Rightarrow> string"

section \<open>The messages\<close>

text \<open>The string literals of the source, as the UTF-8 bytes of the source file.\<close>

definition msg_com_init_failed :: string where
  "msg_com_init_failed =
     ''COM '' @ [CHR 0xE5, CHR 0x88, CHR 0x9D, CHR 0xE5, CHR 0xA7, CHR 0x8B, CHR 0xE5,
       CHR 0x8C, CHR 0x96, CHR 0xE5, CHR 0xA4, CHR 0xB1, CHR 0xE8, CHR 0xB4, CHR 0xA5]"

definition msg_create_recognizer_failed :: string where
  "msg_create_recognizer_failed =
     [CHR 0xE5, CHR 0x88, CHR 0x9B, CHR 0xE5, CHR 0xBB, CHR 0xBA, CHR 0xE8, CHR 0xAF,
      CHR 0xAD, CHR 0xE9, CHR 0x9F, CHR 0xB3, CHR 0xE8, CHR 0xAF, CHR 0x86, CHR 0xE5,
      CHR 0x88, CHR 0xAB, CHR 0xE5, CHR 0x99, CHR 0xA8, CHR 0xE5, CHR 0xA4, CHR 0xB1,
      CHR 0xE8, CHR 0xB4, CHR 0xA5, CHR 0xEF, CHR 0xBC, CHR 0x8C, CHR 0xE8, CHR 0xAF,
      CHR 0xB7, CHR 0xE7, CHR 0xA1, CHR 0xAE, CHR 0xE4, CHR 0xBF, CHR 0x9D]
     @ '' Windows '' @
     [CHR 0xE8, CHR 0xAF, CHR 0xAD, CHR 0xE9, CHR 0x9F, CHR 0xB3, CHR 0xE8, CHR 0xAF,
      CHR 0x86, CHR 0xE5, CHR 0x88, CHR 0xAB, CHR 0xE5, CHR 0xB7, CHR 0xB2, CHR 0xE5,
      CHR 0x90, CHR 0xAF, CHR 0xE7, CHR 0x94, CHR 0xA8]"

definition msg_create_context_failed :: string where
  "msg_create_context_failed =
     [CHR 0xE5, CHR 0x88, CHR 0x9B, CHR 0xE5, CHR 0xBB, CHR 0xBA, CHR 0xE8, CHR 0xAF,
      CHR 0x86, CHR 0xE5, CHR 0x88, CHR 0xAB, CHR 0xE4, CHR 0xB8, CHR 0x8A, CHR 0xE4,
      CHR 0xB8, CHR 0x8B, CHR 0xE6, CHR 0x96, CHR 0x87, CHR 0xE5, CHR 0xA4, CHR 0xB1,
      CHR 0xE8, CHR 0xB4, CHR 0xA5]"

definition msg_set_interest_failed :: string where
  "msg_set_interest_failed =
     [CHR 0xE8, CHR 0xAE, CHR 0xBE, CHR 0xE7, CHR 0xBD, CHR 0xAE, CHR 0xE4, CHR 0xBA,
      CHR 0x8B, CHR 0xE4, CHR 0xBB, CHR 0xB6, CHR 0xE5, CHR 0xA4, CHR 0xB1, CHR 0xE8,
      CHR 0xB4, CHR 0xA5]"

definition msg_create_grammar_failed :: string where
  "msg_create_grammar_failed =
     [CHR 0xE5, CHR 0x88, CHR 0x9B, CHR 0xE5, CHR 0xBB, CHR 0xBA, CHR 0xE8, CHR 0xAF,
      CHR 0xAD, CHR 0xE6, CHR 0xB3, CHR 0x95, CHR 0xE5, CHR 0xA4, CHR 0xB1, CHR 0xE8,
      CHR 0xB4, CHR 0xA5]"

definition msg_load_dictation_failed :: string where
  "msg_load_dictation_failed =
     [CHR 0xE5, CHR 0x8A, CHR 0xA0, CHR 0xE8, CHR 0xBD, CHR 0xBD, CHR 0xE5, CHR 0x90,
      CHR 0xAC, CHR 0xE5, CHR 0x86, CHR 0x99, CHR 0xE8, CHR 0xAF, CHR 0xAD, CHR 0xE6,
      CHR 0xB3, CHR 0x95, CHR 0xE5, CHR 0xA4, CHR 0xB1, CHR 0xE8, CHR 0xB4, CHR 0xA5,
      CHR 0xEF, CHR 0xBC, CHR 0x8C, CHR 0xE8, CHR 0xAF, CHR 0xB7, CHR 0xE7, CHR 0xA1,
      CHR 0xAE, CHR 0xE4, CHR 0xBF, CHR 0x9D, CHR 0xE5, CHR 0xB7, CHR 0xB2, CHR 0xE5,
      CHR 0xAE, CHR 0x89, CHR 0xE8, CHR 0xA3, CHR 0x85, CHR 0xE8, CHR 0xAF, CHR 0xAD,
      CHR 0xE9, CHR 0x9F, CHR 0xB3, CHR 0xE8, CHR 0xAF, CHR 0x86, CHR 0xE5, CHR 0x88,
      CHR 0xAB, CHR 0xE8, CHR 0xAF, CHR 0xAD, CHR 0xE8, CHR 0xA8, CHR 0x80, CHR 0xE5,
      CHR 0x8C, CHR 0x85]"

definition msg_activate_failed :: string where
  "msg_activate_failed =
     [CHR 0xE6, CHR 0xBF, CHR 0x80, CHR 0xE6, CHR 0xB4, CHR 0xBB, CHR 0xE5, CHR 0x90,
      CHR 0xAC, CHR 0xE5, CHR 0x86, CHR 0x99, CHR 0xE5, CHR 0xA4, CHR 0xB1, CHR 0xE8,
      CHR 0xB4, CHR 0xA5]"

section \<open>The control thread's member functions\<close>

text \<open>
  \<^verbatim>\<open>if (error_callback_) { error_callback_(msg); }\<close> and its sibling for the status
  slot: the slot is read, and the callable in it, if there is one, is invoked. No lock
  is taken around either in the source.
\<close>

definition report_error :: "SpeechRecognition \<Rightarrow> string \<Rightarrow> trace" where
  "report_error s msg =
     slot_read error_slot #
     (case error_callback s of None \<Rightarrow> [] | Some f \<Rightarrow> [error_call f msg])"

definition report_status :: "SpeechRecognition \<Rightarrow> string \<Rightarrow> trace" where
  "report_status s msg =
     slot_read status_slot #
     (case status_callback s of None \<Rightarrow> [] | Some f \<Rightarrow> [status_call f msg])"

text \<open>\<^verbatim>\<open>Cleanup\<close>, lines 109 to 128.\<close>

definition Cleanup :: "SpeechRecognition \<Rightarrow> SpeechRecognition \<times> trace" where
  "Cleanup s =
     (let (s1, t1) = (if grammar s \<noteq> nullptr
                      then (s\<lparr>grammar := nullptr\<rparr>, [Release (grammar s)])
                      else (s, []));
          (s2, t2) = (if context s1 \<noteq> nullptr
                      then (s1\<lparr>context := nullptr\<rparr>, [Release (context s1)])
                      else (s1, []));
          (s3, t3) = (if recognizer s2 \<noteq> nullptr
                      then (s2\<lparr>recognizer := nullptr\<rparr>, [Release (recognizer s2)])
                      else (s2, []));
          s4 = s3\<lparr>recognition_event := nullptr\<rparr>;
          (s5, t5) = (if com_initialized s4
                      then (s4\<lparr>com_initialized := False\<rparr>, [CoUninitialize])
                      else (s4, []))
      in (s5, t1 @ t2 @ t3 @ t5))"

text \<open>
  \<^verbatim>\<open>Initialize\<close>, lines 33 to 107. A native call with an out parameter stores what
  the engine left there in the member, whatever the \<^verbatim>\<open>HRESULT\<close>.
\<close>

definition Initialize :: "sapi \<Rightarrow> SpeechRecognition \<Rightarrow> bool \<times> SpeechRecognition \<times> trace" where
  "Initialize api s =
     (if is_initialized s then (True, s, [])
      else
        let hr0 = CoInitializeEx_hr api;
            t0 = [CoInitializeEx hr0]
        in if FAILED hr0 \<and> hr0 \<noteq> RPC_E_CHANGED_MODE
           then (False, s, t0 @ report_error s msg_com_init_failed)
           else
        let s0 = s\<lparr>com_initialized := (hr0 \<noteq> RPC_E_CHANGED_MODE)\<rparr>;
            hr1 = CoCreateInstance_hr api;
            s1 = s0\<lparr>recognizer := CoCreateInstance_out api\<rparr>;
            t1 = t0 @ [CoCreateInstance hr1 (recognizer s1)]
        in if FAILED hr1
           then (let (s', tc) = Cleanup s1
                 in (False, s', t1 @ report_error s1 msg_create_recognizer_failed @ tc))
           else
        let hr2 = CreateRecoContext_hr api;
            s2 = s1\<lparr>context := CreateRecoContext_out api\<rparr>;
            t2 = t1 @ [CreateRecoContext (recognizer s1) hr2 (context s2)]
        in if FAILED hr2
           then (let (s', tc) = Cleanup s2
                 in (False, s', t2 @ report_error s2 msg_create_context_failed @ tc))
           else
        let hr3 = SetInterest_hr api;
            t3 = t2 @ [SetInterest (context s2) hr3]
        in if FAILED hr3
           then (let (s', tc) = Cleanup s2
                 in (False, s', t3 @ report_error s2 msg_set_interest_failed @ tc))
           else
        let s4 = s2\<lparr>recognition_event := NotifyEventHandle api\<rparr>;
            t4 = t3 @ [GetNotifyEventHandle (context s2) (recognition_event s4)];
            hr5 = CreateGrammar_hr api;
            s5 = s4\<lparr>grammar := CreateGrammar_out api\<rparr>;
            t5 = t4 @ [CreateGrammar (context s4) hr5 (grammar s5)]
        in if FAILED hr5
           then (let (s', tc) = Cleanup s5
                 in (False, s', t5 @ report_error s5 msg_create_grammar_failed @ tc))
           else
        let hr6 = LoadDictation_hr api;
            t6 = t5 @ [LoadDictation (grammar s5) hr6]
        in if FAILED hr6
           then (let (s', tc) = Cleanup s5
                 in (False, s', t6 @ report_error s5 msg_load_dictation_failed @ tc))
           else
        let s7 = s5\<lparr>is_initialized := True\<rparr>
        in (True, s7, t6 @ report_status s7 ''initialized''))"

text \<open>
  \<^verbatim>\<open>StartListening\<close>, lines 130 to 160. The assignment of the new thread to
  \<^verbatim>\<open>recognition_thread_\<close> requires a member that is not joinable
  (\<^verbatim>\<open>std::thread\<close> terminates the program otherwise); \<open>thread_member_free\<close>
  below shows that it never is when the assignment is reached.
\<close>

definition StartListening :: "sapi \<Rightarrow> SpeechRecognition \<Rightarrow> bool \<times> SpeechRecognition \<times> trace" where
  "StartListening api s =
     (let (ok, s1, t1) = (if \<not> is_initialized s then Initialize api s else (True, s, []))
      in if \<not> ok then (False, s1, t1)
         else if is_listening s1 then (True, s1, t1)
         else
           let hr = SetDictationState_hr api SPRS_ACTIVE;
               t2 = t1 @ [SetDictationState (grammar s1) SPRS_ACTIVE hr]
           in if FAILED hr
              then (False, s1, t2 @ report_error s1 msg_activate_failed)
              else
                let s2 = s1\<lparr>is_listening := True\<rparr>;
                    s3 = s2\<lparr>should_stop := False\<rparr>;
                    s4 = s3\<lparr>recognition_thread := True\<rparr>
                in (True, s4, t2 @ [thread_start] @ report_status s4 ''listening''))"

text \<open>
  \<^verbatim>\<open>StopListening\<close>, lines 162 to 183, in the two parts that the blocking
  \<^verbatim>\<open>join()\<close> separates: \<open>StopListening_signal\<close> is lines 167 to 173, up to the
  join, and \<open>StopListening_join\<close> is lines 176 to 182, from the join on.
\<close>

definition StopListening_signal :: "sapi \<Rightarrow> SpeechRecognition \<Rightarrow> SpeechRecognition \<times> trace" where
  "StopListening_signal api s =
     (let s1 = s\<lparr>should_stop := True\<rparr>;
          s2 = s1\<lparr>is_listening := False\<rparr>
      in (s2, if grammar s2 \<noteq> nullptr
              then [SetDictationState (grammar s2) SPRS_INACTIVE
                      (SetDictationState_hr api SPRS_INACTIVE)]
              else []))"

definition StopListening_join :: "SpeechRecognition \<Rightarrow> SpeechRecognition \<times> trace" where
  "StopListening_join s =
     (let (s1, t1) = (if recognition_thread s
                      then (s\<lparr>recognition_thread := False\<rparr>, [thread_join])
                      else (s, []))
      in (s1, t1 @ report_status s1 ''stopped''))"

definition StopListening :: "sapi \<Rightarrow> SpeechRecognition \<Rightarrow> SpeechRecognition \<times> trace" where
  "StopListening api s =
     (if \<not> is_listening s then (s, [])
      else
        let (s1, t1) = StopListening_signal api s;
            (s2, t2) = StopListening_join s1
        in (s2, t1 @ t2))"

text \<open>The destructor, lines 9 to 31.\<close>

definition destructor :: "sapi \<Rightarrow> SpeechRecognition \<Rightarrow> SpeechRecognition \<times> trace" where
  "destructor api s =
     (let (s0, t0) = StopListening api s;
          (s1, t1) = (if grammar s0 \<noteq> nullptr
                      then (s0\<lparr>grammar := nullptr\<rparr>, [Release (grammar s0)])
                      else (s0, []));
          (s2, t2) = (if context s1 \<noteq> nullptr
                      then (s1\<lparr>context := nullptr\<rparr>, [Release (context s1)])
                      else (s1, []));
          (s3, t3) = (if recognizer s2 \<noteq> nullptr
                      then (s2\<lparr>recognizer := nullptr\<rparr>, [Release (recognizer s2)])
                      else (s2, []));
          s4 = s3\<lparr>recognition_event := nullptr\<rparr>;
          (s5, t5) = (if com_initialized s4
                      then (s4\<lparr>com_initialized := False\<rparr>, [CoUninitialize])
                      else (s4, []))
      in (s5, t0 @ t1 @ t2 @ t3 @ t5))"

text \<open>The three setters, lines 248 to 261: the slot is replaced under the lock.\<close>

definition SetResultCallback :: "callback \<Rightarrow> SpeechRecognition \<Rightarrow> SpeechRecognition \<times> trace" where
  "SetResultCallback cb s =
     (s\<lparr>result_callback := cb\<rparr>, [mutex_lock, slot_write result_slot, mutex_unlock])"

definition SetErrorCallback :: "callback \<Rightarrow> SpeechRecognition \<Rightarrow> SpeechRecognition \<times> trace" where
  "SetErrorCallback cb s =
     (s\<lparr>error_callback := cb\<rparr>, [mutex_lock, slot_write error_slot, mutex_unlock])"

definition SetStatusCallback :: "callback \<Rightarrow> SpeechRecognition \<Rightarrow> SpeechRecognition \<times> trace" where
  "SetStatusCallback cb s =
     (s\<lparr>status_callback := cb\<rparr>, [mutex_lock, slot_write status_slot, mutex_unlock])"

section \<open>The polling thread\<close>

text \<open>\<^verbatim>\<open>WideToUtf8\<close>, lines 239 to 246.\<close>

definition WideToUtf8 :: "sapi \<Rightarrow> wstring \<Rightarrow> string" where
  "WideToUtf8 api wstr = (if wstr = [] then [] else WideCharToMultiByte api wstr)"

text \<open>
  The body of the inner loop of \<^verbatim>\<open>RecognitionThread\<close>, lines 196 to 233, for one
  event that \<^verbatim>\<open>GetEvents\<close> delivered. The \<^verbatim>\<open>lock_guard\<close> lives to the end of
  the block it is declared in, so the unlock follows \<^verbatim>\<open>CoTaskMemFree\<close>.
\<close>

definition process_event :: "sapi \<Rightarrow> SpeechRecognition \<Rightarrow> SPEVENT \<Rightarrow> trace" where
  "process_event api s event =
     (if eEventId event = SPEI_RECOGNITION \<or> eEventId event = SPEI_FALSE_RECOGNITION
      then
        if elParamType event = SPET_LPARAM_IS_OBJECT \<and> lParam event \<noteq> nullptr
        then
          (let reco_result = lParam event
           in (if eEventId event = SPEI_RECOGNITION
               then
                 (let (hr, text) = GetText_reply api reco_result
                  in GetText reco_result hr text #
                     (case text of
                        None \<Rightarrow> []
                      | Some wtext \<Rightarrow>
                          if SUCCEEDED hr
                          then
                            (let utf8_text = WideToUtf8 api wtext
                             in [mutex_lock, slot_read result_slot] @
                                (case result_callback s of
                                   None \<Rightarrow> []
                                 | Some f \<Rightarrow>
                                     if utf8_text \<noteq> [] then [result_call f utf8_text True]
                                     else []) @
                                [CoTaskMemFree text, mutex_unlock])
                          else []))
               else []) @
              [Release reco_result])
        else []
      else
        if elParamType event = SPET_LPARAM_IS_OBJECT \<and> lParam event \<noteq> nullptr
        then [Release (lParam event)]
        else [])"

text \<open>
  The inner loop, lines 195 to 234. The list holds what the successive calls of
  \<^verbatim>\<open>GetEvents\<close> answer: the \<^verbatim>\<open>HRESULT\<close>, the number fetched and the event. When
  the list is used up the queue is empty: \<^verbatim>\<open>GetEvents\<close> answers \<^verbatim>\<open>S_FALSE\<close> with
  nothing fetched.
\<close>

record GetEvents_reply =
  reply_hr :: HRESULT
  fetched :: ULONG
  event :: SPEVENT

fun drain_events :: "sapi \<Rightarrow> SpeechRecognition \<Rightarrow> GetEvents_reply list \<Rightarrow> trace" where
  "drain_events api s [] = [GetEvents (context s) S_FALSE 0]"
| "drain_events api s (r # rs) =
     GetEvents (context s) (reply_hr r) (fetched r) #
     (if reply_hr r = S_OK \<and> fetched r > 0
      then process_event api s (event r) @ drain_events api s rs
      else [])"

text \<open>
  One turn of the outer loop, lines 187 to 235, entered when \<^verbatim>\<open>should_stop_\<close> was
  read as false: the bounded wait and, when the event is signalled, the inner loop.
\<close>

definition poll_once :: "sapi \<Rightarrow> SpeechRecognition \<Rightarrow> DWORD \<Rightarrow> GetEvents_reply list \<Rightarrow> trace" where
  "poll_once api s result replies =
     WaitForSingleObject (recognition_event s) result #
     (if result = WAIT_OBJECT_0 then drain_events api s replies else [])"

section \<open>Reading a trace\<close>

text \<open>
  What a trace says about native resources. A resource is the process-wide COM
  initialisation or a reference-counted COM object. A native call acquires one when
  it succeeds; \<^verbatim>\<open>Release\<close> and \<^verbatim>\<open>CoUninitialize\<close> give one back.
\<close>

datatype resource = com_runtime | com_object ptr

fun acquired :: "effect \<Rightarrow> resource list" where
  "acquired (CoInitializeEx hr) = (if SUCCEEDED hr then [com_runtime] else [])"
| "acquired (CoCreateInstance hr p) = (if SUCCEEDED hr then [com_object p] else [])"
| "acquired (CreateRecoContext r hr p) = (if SUCCEEDED hr then [com_object p] else [])"
| "acquired (CreateGrammar c hr p) = (if SUCCEEDED hr then [com_object p] else [])"
| "acquired _ = []"

fun released :: "effect \<Rightarrow> resource list" where
  "released (Release p) = [com_object p]"
| "released CoUninitialize = [com_runtime]"
| "released _ = []"

definition acquisitions :: "trace \<Rightarrow> resource list" where
  "acquisitions t = concat (map acquired t)"

definition releases :: "trace \<Rightarrow> resource list" where
  "releases t = concat (map released t)"

fun is_call :: "effect \<Rightarrow> bool" where
  "is_call (result_call f text final) = True"
| "is_call (error_call f msg) = True"
| "is_call (status_call f msg) = True"
| "is_call _ = False"

definition callback_calls :: "trace \<Rightarrow> trace" where
  "callback_calls t = filter is_call t"

text \<open>
  The steps of \<^verbatim>\<open>Initialize\<close> that can fail, in program order, the test the source
  applies to each, and the message it reports for each.
\<close>

datatype init_step =
    step_CoInitializeEx
  | step_CoCreateInstance
  | step_CreateRecoContext
  | step_SetInterest
  | step_CreateGrammar
  | step_LoadDictation

fun step_failed :: "sapi \<Rightarrow> init_step \<Rightarrow> bool" where
  "step_failed api step_CoInitializeEx =
     (FAILED (CoInitializeEx_hr api) \<and> CoInitializeEx_hr api \<noteq> RPC_E_CHANGED_MODE)"
| "step_failed api step_CoCreateInstance = FAILED (CoCreateInstance_hr api)"
| "step_failed api step_CreateRecoContext = FAILED (CreateRecoContext_hr api)"
| "step_failed api step_SetInterest = FAILED (SetInterest_hr api)"
| "step_failed api step_CreateGrammar = FAILED (CreateGrammar_hr api)"
| "step_failed api step_LoadDictation = FAILED (LoadDictation_hr api)"

definition init_steps :: "init_step list" where
  "init_steps =
     [step_CoInitializeEx, step_CoCreateInstance, step_CreateRecoContext,
      step_SetInterest, step_CreateGrammar, step_LoadDictation]"

definition first_failed_step :: "sapi \<Rightarrow> init_step option" where
  "first_failed_step api = find (step_failed api) init_steps"

fun init_failure_message :: "init_step \<Rightarrow> string" where
  "init_failure_message step_CoInitializeEx = msg_com_init_failed"
| "init_failure_message step_CoCreateInstance = msg_create_recognizer_failed"
| "init_failure_message step_CreateRecoContext = msg_create_context_failed"
| "init_failure_message step_SetInterest = msg_set_interest_failed"
| "init_failure_message step_CreateGrammar = msg_create_grammar_failed"
| "init_failure_message step_LoadDictation = msg_load_dictation_failed"

text \<open>
  The state Uninitialized: nothing is held. \<open>com_contract\<close> is the COM rule for out
  parameters that the source relies on when it tests the members against
  \<^verbatim>\<open>nullptr\<close>: a failed call leaves a null pointer, a successful one a real object.
\<close>

definition uninitialized :: "SpeechRecognition \<Rightarrow> bool" where
  "uninitialized s =
     (\<not> is_initialized s \<and> recognizer s = nullptr \<and> context s = nullptr \<and>
      grammar s = nullptr \<and> recognition_event s = nullptr \<and> \<not> com_initialized s)"

definition out_ok :: "HRESULT \<Rightarrow> ptr \<Rightarrow> bool" where
  "out_ok hr p = (if FAILED hr then p = nullptr else p \<noteq> nullptr)"

definition com_contract :: "sapi \<Rightarrow> bool" where
  "com_contract api =
     (out_ok (CoCreateInstance_hr api) (CoCreateInstance_out api) \<and>
      out_ok (CreateRecoContext_hr api) (CreateRecoContext_out api) \<and>
      out_ok (CreateGrammar_hr api) (CreateGrammar_out api))"

section \<open>Sequences of calls\<close>

text \<open>
  The control thread calls the public member functions one after the other, each with
  the answers the engine gives during that call. \<^verbatim>\<open>IsListening\<close> and
  \<^verbatim>\<open>IsInitialized\<close> only read a flag and are left out.
\<close>

datatype call =
    call_Initialize sapi
  | call_StartListening sapi
  | call_StopListening sapi
  | call_SetResultCallback callback
  | call_SetErrorCallback callback
  | call_SetStatusCallback callback

fun do_call :: "call \<Rightarrow> SpeechRecognition \<Rightarrow> SpeechRecognition \<times> trace" where
  "do_call (call_Initialize api) s = snd (Initialize api s)"
| "do_call (call_StartListening api) s = snd (StartListening api s)"
| "do_call (call_StopListening api) s = StopListening api s"
| "do_call (call_SetResultCallback cb) s = SetResultCallback cb s"
| "do_call (call_SetErrorCallback cb) s = SetErrorCallback cb s"
| "do_call (call_SetStatusCallback cb) s = SetStatusCallback cb s"

fun run_calls :: "call list \<Rightarrow> SpeechRecognition \<Rightarrow> SpeechRecognition \<times> trace" where
  "run_calls [] s = (s, [])"
| "run_calls (c # cs) s =
     (let (s1, t1) = do_call c s;
          (s2, t2) = run_calls cs s1
      in (s2, t1 @ t2))"

section \<open>Events and their attached object\<close>

text \<open>
  An event carries a native object when its parameter is typed as an object and is not
  null. \<open>extracted_text\<close> is the UTF-8 text the loop body obtains from a recognition
  event, when it obtains one.
\<close>

definition has_object :: "SPEVENT \<Rightarrow> bool" where
  "has_object ev = (elParamType ev = SPET_LPARAM_IS_OBJECT \<and> lParam ev \<noteq> nullptr)"

definition extracted_text :: "sapi \<Rightarrow> SPEVENT \<Rightarrow> string option" where
  "extracted_text api ev =
     (if eEventId ev = SPEI_RECOGNITION \<and> has_object ev
      then (case GetText_reply api (lParam ev) of
              (hr, None) \<Rightarrow> None
            | (hr, Some wtext) \<Rightarrow> if SUCCEEDED hr then Some (WideToUtf8 api wtext) else None)
      else None)"

text \<open>
  The events the inner loop drains from a list of replies are those of the replies up
  to the first that does not pass the loop test, line 195.

  \<open>expected_calls\<close> follows the specification, not the source: it is the callback
  invocation the specification asks for one drained event, namely the result callback
  with the extracted text and \<open>True\<close> when there is an extracted text, it is not
  empty and a callback is registered, and nothing otherwise. \<open>attached_object\<close>
  is the object an event carries, if any.
\<close>

definition drained :: "GetEvents_reply list \<Rightarrow> SPEVENT list" where
  "drained rs = map event (takeWhile (\<lambda>r. reply_hr r = S_OK \<and> 0 < fetched r) rs)"

definition expected_calls :: "sapi \<Rightarrow> SpeechRecognition \<Rightarrow> SPEVENT \<Rightarrow> trace" where
  "expected_calls api s ev =
     (case extracted_text api ev of
        None \<Rightarrow> []
      | Some txt \<Rightarrow>
          (case result_callback s of
             None \<Rightarrow> []
           | Some f \<Rightarrow> if txt = [] then [] else [result_call f txt True]))"

definition attached_object :: "SPEVENT \<Rightarrow> resource list" where
  "attached_object ev = (if has_object ev then [com_object (lParam ev)] else [])"

section \<open>Teardown and the COM runtime\<close>

text \<open>
  \<open>teardown_releases\<close> is what a teardown is expected to give back from a given
  object: the objects still held, grammar first, then context, then recognizer, and
  last the COM runtime when this session initialised it. \<open>com_acquired\<close> and
  \<open>com_released\<close> count, in a trace, the successful calls of
  \<^verbatim>\<open>CoInitializeEx\<close> and the calls of \<^verbatim>\<open>CoUninitialize\<close>.
  \<open>com_flag_ok\<close> holds of every object the member functions produce:
  \<^verbatim>\<open>com_initialized_\<close> is only set once \<^verbatim>\<open>Initialize\<close> has succeeded.
\<close>

definition teardown_releases :: "SpeechRecognition \<Rightarrow> resource list" where
  "teardown_releases s =
     (if grammar s \<noteq> nullptr then [com_object (grammar s)] else []) @
     (if context s \<noteq> nullptr then [com_object (context s)] else []) @
     (if recognizer s \<noteq> nullptr then [com_object (recognizer s)] else []) @
     (if com_initialized s then [com_runtime] else [])"

definition com_acquired :: "trace \<Rightarrow> nat" where
  "com_acquired t = count_list (acquisitions t) com_runtime"

definition com_released :: "trace \<Rightarrow> nat" where
  "com_released t = count_list (releases t) com_runtime"

fun is_CloseHandle :: "effect \<Rightarrow> bool" where
  "is_CloseHandle (CloseHandle h) = True"
| "is_CloseHandle _ = False"

definition com_flag_ok :: "SpeechRecognition \<Rightarrow> bool" where
  "com_flag_ok s = (is_initialized s \<or> \<not> com_initialized s)"

section \<open>Lock discipline\<close>




section \<open>The two threads together\<close>

text \<open>
  The control thread and the polling thread run interleaved. The state of the whole
  is the session object, where the polling thread stands, and whether the control
  thread is blocked inside \<^verbatim>\<open>StopListening\<close> at \<^verbatim>\<open>join()\<close>. The polling
  thread stands nowhere (\<open>pc_none\<close>: not started, or joined), at the test of the
  outer loop, at the wait, at a call of \<^verbatim>\<open>GetEvents\<close>, or behind the end of
  \<^verbatim>\<open>RecognitionThread\<close> (\<open>pc_returned\<close>).

  An action is one atomic move of one thread, with the answers of the engine it
  needs: a call of a public member function by the control thread, which runs to its
  end, except that a \<^verbatim>\<open>StopListening\<close> on a listening session runs up to the
  join and blocks; the completion of that join, possible only once the polling thread
  has returned (\<^verbatim>\<open>std::thread::join\<close>), with the rest of \<^verbatim>\<open>StopListening\<close>;
  the test \<^verbatim>\<open>while (!should_stop_)\<close>, line 186; the wait, line 187; one call of
  \<^verbatim>\<open>GetEvents\<close> with the loop body for the event it delivered, lines 195 to 234.
  \<open>step\<close> is \<open>None\<close> when the action is not possible in the state. The log
  records the effects with the thread that made them. \<^verbatim>\<open>should_stop_\<close> is a
  \<^verbatim>\<open>std::atomic\<close>, so the interleaving of whole reads and writes is its meaning.
\<close>

datatype poll_pc = pc_none | pc_loop_test | pc_wait | pc_get_events | pc_returned

record system =
  session :: SpeechRecognition
  polling :: poll_pc
  joining :: bool

datatype thread_id = control_thread | polling_thread

type_synonym log = "(thread_id \<times> effect) list"

datatype action =
    act_call call
  | act_join
  | act_loop_test
  | act_wait DWORD
  | act_get_events sapi GetEvents_reply

definition by_thread :: "thread_id \<Rightarrow> trace \<Rightarrow> log" where
  "by_thread th t = map (Pair th) t"

fun step_call :: "call \<Rightarrow> system \<Rightarrow> system \<times> log" where
  "step_call (call_StopListening api) w =
     (if \<not> is_listening (session w) then (w, [])
      else
        let (s1, t1) = StopListening_signal api (session w)
        in (w\<lparr>session := s1, joining := True\<rparr>, by_thread control_thread t1))"
| "step_call (call_StartListening api) w =
     (let (ok, s1, t1) = StartListening api (session w)
      in (w\<lparr>session := s1,
            polling := (if thread_start \<in> set t1 then pc_loop_test else polling w)\<rparr>,
          by_thread control_thread t1))"
| "step_call c w =
     (let (s1, t1) = do_call c (session w)
      in (w\<lparr>session := s1\<rparr>, by_thread control_thread t1))"

fun step :: "action \<Rightarrow> system \<Rightarrow> (system \<times> log) option" where
  "step (act_call c) w = (if joining w then None else Some (step_call c w))"
| "step act_join w =
     (if joining w \<and> (recognition_thread (session w) \<longrightarrow> polling w = pc_returned)
      then
        let (s1, t1) = StopListening_join (session w)
        in Some (w\<lparr>session := s1,
                   polling := (if recognition_thread (session w) then pc_none else polling w),
                   joining := False\<rparr>,
                 by_thread control_thread t1)
      else None)"
| "step act_loop_test w =
     (if polling w = pc_loop_test
      then Some (w\<lparr>polling := (if should_stop (session w) then pc_returned else pc_wait)\<rparr>, [])
      else None)"
| "step (act_wait result) w =
     (if polling w = pc_wait
      then Some (w\<lparr>polling := (if result = WAIT_OBJECT_0 then pc_get_events else pc_loop_test)\<rparr>,
                 by_thread polling_thread
                   [WaitForSingleObject (recognition_event (session w)) result])
      else None)"
| "step (act_get_events api r) w =
     (if polling w = pc_get_events
      then
        if reply_hr r = S_OK \<and> fetched r > 0
        then Some (w, by_thread polling_thread
                        (GetEvents (context (session w)) (reply_hr r) (fetched r) #
                         process_event api (session w) (event r)))
        else Some (w\<lparr>polling := pc_loop_test\<rparr>,
                   by_thread polling_thread
                     [GetEvents (context (session w)) (reply_hr r) (fetched r)])
      else None)"

fun run :: "action list \<Rightarrow> system \<Rightarrow> (system \<times> log) option" where
  "run [] w = Some (w, [])"
| "run (a # as) w =
     (case step a w of
        None \<Rightarrow> None
      | Some (w1, l1) \<Rightarrow>
          (case run as w1 of None \<Rightarrow> None | Some (w2, l2) \<Rightarrow> Some (w2, l1 @ l2)))"

definition started :: system where
  "started = \<lparr>session = constructed, polling = pc_none, joining = False\<rparr>"

fun is_start :: "action \<Rightarrow> bool" where
  "is_start (act_call (call_StartListening api)) = True"
| "is_start _ = False"

definition system_ok :: "system \<Rightarrow> bool" where
  "system_ok w =
     (recognition_thread (session w) = (is_listening (session w) \<or> joining w) \<and>
      (polling w = pc_none) = (\<not> recognition_thread (session w)) \<and>
      (joining w \<longrightarrow> \<not> is_listening (session w) \<and> should_stop (session w)))"

text \<open>An engine on which every call succeeds, and variants of it for concrete runs.\<close>

definition sapi_ok :: sapi where
  "sapi_ok =
     \<lparr>CoInitializeEx_hr = S_OK,
      CoCreateInstance_hr = S_OK, CoCreateInstance_out = 10,
      CreateRecoContext_hr = S_OK, CreateRecoContext_out = 20,
      SetInterest_hr = S_OK, NotifyEventHandle = 30,
      CreateGrammar_hr = S_OK, CreateGrammar_out = 40,
      LoadDictation_hr = S_OK,
      SetDictationState_hr = (\<lambda>st. S_OK),
      GetText_reply = (\<lambda>p. (S_OK, Some [104, 105])),
      WideCharToMultiByte = map (\<lambda>c. char_of (unat c))\<rparr>"

definition sapi_load_fails :: sapi where
  "sapi_load_fails = sapi_ok\<lparr>LoadDictation_hr := E_FAIL\<rparr>"

definition with_error_callback :: SpeechRecognition where
  "with_error_callback = fst (SetErrorCallback (Some 7) constructed)"

definition sapi_activate_fails :: sapi where
  "sapi_activate_fails = sapi_ok\<lparr>SetDictationState_hr := (\<lambda>st. E_FAIL)\<rparr>"

definition initialized_session :: SpeechRecognition where
  "initialized_session =
     \<lparr>recognizer = 10, context = 20, grammar = 40, recognition_event = 30,
      is_initialized = True, is_listening = False, should_stop = False,
      com_initialized = True, recognition_thread = False,
      result_callback = None, error_callback = Some 7, status_callback = None\<rparr>"

definition stopped_session :: SpeechRecognition where
  "stopped_session = initialized_session\<lparr>should_stop := True\<rparr>"

definition listening_session :: SpeechRecognition where
  "listening_session =
     initialized_session\<lparr>is_listening := True, recognition_thread := True,
       result_callback := Some 5\<rparr>"

definition recognized_event :: SPEVENT where
  "recognized_event =
     \<lparr>eEventId = SPEI_RECOGNITION, elParamType = SPET_LPARAM_IS_OBJECT, lParam = 50\<rparr>"

definition rejected_event :: SPEVENT where
  "rejected_event =
     \<lparr>eEventId = SPEI_FALSE_RECOGNITION, elParamType = SPET_LPARAM_IS_OBJECT, lParam = 51\<rparr>"

definition detached_event :: SPEVENT where
  "detached_event =
     \<lparr>eEventId = SPEI_RECOGNITION, elParamType = SPET_LPARAM_IS_UNDEFINED, lParam = 0\<rparr>"

definition sapi_empty_text :: sapi where
  "sapi_empty_text = sapi_ok\<lparr>GetText_reply := (\<lambda>p. (S_OK, Some []))\<rparr>"

definition sapi_changed_mode :: sapi where
  "sapi_changed_mode = sapi_ok\<lparr>CoInitializeEx_hr := RPC_E_CHANGED_MODE\<rparr>"

definition changed_mode_session :: SpeechRecognition where
  "changed_mode_session =
     \<lparr>recognizer = 10, context = 20, grammar = 40, recognition_event = 30,
      is_initialized = True, is_listening = False, should_stop = False,
      com_initialized = False, recognition_thread = False,
      result_callback = None, error_callback = None, status_callback = None\<rparr>"

definition torn_down_session :: SpeechRecognition where
  "torn_down_session = constructed\<lparr>is_initialized := True\<rparr>"

definition destroyed_session :: SpeechRecognition where
  "destroyed_session =
     initialized_session\<lparr>recognizer := nullptr, context := nullptr, grammar := nullptr,
       recognition_event := nullptr, com_initialized := False\<rparr>"

definition reply_with :: "SPEVENT \<Rightarrow> GetEvents_reply" where
  "reply_with ev = \<lparr>reply_hr = S_OK, fetched = 1, event = ev\<rparr>"

definition reply_empty :: GetEvents_reply where
  "reply_empty =
     \<lparr>reply_hr = S_FALSE, fetched = 0,
      event = \<lparr>eEventId = SPEI_OTHER 0, elParamType = SPET_LPARAM_IS_UNDEFINED,
               lParam = nullptr\<rparr>\<rparr>"

definition schedule_listen :: "action list" where
  "schedule_listen =
     [act_call (call_SetErrorCallback (Some 7)), act_call (call_Initialize sapi_ok),
      act_call (call_SetResultCallback (Some 5)), act_call (call_StartListening sapi_ok),
      act_loop_test, act_wait WAIT_OBJECT_0,
      act_get_events sapi_ok (reply_with recognized_event)]"

definition schedule_exit :: "action list" where
  "schedule_exit = [act_get_events sapi_ok reply_empty, act_loop_test]"

definition schedule_after :: "action list" where
  "schedule_after =
     [act_call (call_SetResultCallback None), act_call (call_StopListening sapi_ok)]"

definition listening_system :: system where
  "listening_system =
     \<lparr>session = listening_session, polling = pc_get_events, joining = False\<rparr>"

definition stopping_system :: system where
  "stopping_system =
     \<lparr>session = listening_session\<lparr>should_stop := True, is_listening := False\<rparr>,
      polling = pc_get_events, joining = True\<rparr>"

definition returned_system :: system where
  "returned_system = stopping_system\<lparr>polling := pc_returned\<rparr>"

definition stopped_system :: system where
  "stopped_system =
     \<lparr>session = listening_session\<lparr>should_stop := True, is_listening := False,
                  recognition_thread := False\<rparr>,
      polling = pc_none, joining = False\<rparr>"

definition final_system :: system where
  "final_system =
     stopped_system\<lparr>session := (session stopped_system)\<lparr>result_callback := None\<rparr>\<rparr>"

fun exit_schedule :: "poll_pc \<Rightarrow> action list" where
  "exit_schedule pc_get_events = [act_get_events sapi_ok reply_empty, act_loop_test]"
| "exit_schedule pc_wait = [act_wait WAIT_TIMEOUT, act_loop_test]"
| "exit_schedule pc_loop_test = [act_loop_test]"
| "exit_schedule pc_returned = []"
| "exit_schedule pc_none = []"

definition sapi_text_fails :: sapi where
  "sapi_text_fails = sapi_ok\<lparr>GetText_reply := (\<lambda>p. (E_FAIL, None))\<rparr>"

definition queued_replies :: "GetEvents_reply list" where
  "queued_replies =
     [reply_with recognized_event, reply_with rejected_event, reply_with detached_event]"

section \<open>Basic facts\<close>

lemma SUCCEEDED_iff: "SUCCEEDED hr = (\<not> FAILED hr)"
  by (auto simp: SUCCEEDED_def FAILED_def)

lemma FAILED_RPC_E_CHANGED_MODE: "FAILED RPC_E_CHANGED_MODE"
  by (simp add: FAILED_def RPC_E_CHANGED_MODE_def)

lemma FAILED_E_FAIL: "FAILED E_FAIL"
  by (simp add: FAILED_def E_FAIL_def)

lemma not_FAILED_S_OK: "\<not> FAILED S_OK"
  by (simp add: FAILED_def S_OK_def)

lemma S_OK_neq_RPC_E_CHANGED_MODE: "S_OK \<noteq> RPC_E_CHANGED_MODE"
  by (simp add: S_OK_def RPC_E_CHANGED_MODE_def)

lemma Cleanup_eq:
  "Cleanup s =
     (s\<lparr>recognizer := nullptr, context := nullptr, grammar := nullptr,
        recognition_event := nullptr, com_initialized := False\<rparr>,
      (if grammar s \<noteq> nullptr then [Release (grammar s)] else []) @
      (if context s \<noteq> nullptr then [Release (context s)] else []) @
      (if recognizer s \<noteq> nullptr then [Release (recognizer s)] else []) @
      (if com_initialized s then [CoUninitialize] else []))"
  by (cases s) (simp add: Cleanup_def)

lemma init_failure_message_inj: "inj init_failure_message"
proof (rule injI)
  fix j k
  assume "init_failure_message j = init_failure_message k"
  then show "j = k"
    by (cases j; cases k;
        simp add: msg_com_init_failed_def msg_create_recognizer_failed_def
          msg_create_context_failed_def msg_set_interest_failed_def
          msg_create_grammar_failed_def msg_load_dictation_failed_def)
qed

lemma uninitialized_constructed: "uninitialized constructed"
  by (simp add: uninitialized_def constructed_def)

section \<open>Failure inside Initialize\<close>

text \<open>
  Claim C3. When \<^verbatim>\<open>Initialize\<close> runs on an Uninitialized session and step \<open>k\<close> is
  the first to fail, it returns false, it has given back exactly what the earlier
  steps acquired, in the reverse order of acquisition, the session is Uninitialized
  again, and the only callback invocation is the error callback (when one is
  registered; an empty slot is skipped), with the message of step \<open>k\<close>, which no
  other step uses.
\<close>

theorem Initialize_failure_unwinds:
  assumes "uninitialized s" and "com_contract api" and "first_failed_step api = Some k"
  shows "case Initialize api s of (ok, s', t) \<Rightarrow>
           \<not> ok \<and> releases t = rev (acquisitions t) \<and> uninitialized s' \<and>
           callback_calls t =
             (case error_callback s of None \<Rightarrow> []
              | Some f \<Rightarrow> [error_call f (init_failure_message k)]) \<and>
           (\<forall>j. j \<noteq> k \<longrightarrow> init_failure_message j \<noteq> init_failure_message k)"
proof -
  have "case Initialize api s of (ok, s', t) \<Rightarrow>
           \<not> ok \<and> releases t = rev (acquisitions t) \<and> uninitialized s' \<and>
           callback_calls t =
             (case error_callback s of None \<Rightarrow> []
              | Some f \<Rightarrow> [error_call f (init_failure_message k)])"
    using assms
    by (cases k)
       (auto simp: Initialize_def Cleanup_eq Let_def uninitialized_def com_contract_def
          out_ok_def first_failed_step_def init_steps_def releases_def acquisitions_def
          callback_calls_def report_error_def SUCCEEDED_iff FAILED_RPC_E_CHANGED_MODE
          split: if_splits option.splits)
  moreover have "\<forall>j. j \<noteq> k \<longrightarrow> init_failure_message j \<noteq> init_failure_message k"
    using init_failure_message_inj by (auto dest: injD)
  ultimately show ?thesis by (auto split: prod.splits)
qed

lemma Initialize_load_fails:
  "Initialize sapi_load_fails with_error_callback =
     (False, with_error_callback,
      [CoInitializeEx S_OK, CoCreateInstance S_OK 10, CreateRecoContext 10 S_OK 20,
       SetInterest 20 S_OK, GetNotifyEventHandle 20 30, CreateGrammar 20 S_OK 40,
       LoadDictation 40 E_FAIL, slot_read error_slot,
       error_call 7 msg_load_dictation_failed,
       Release 40, Release 20, Release 10, CoUninitialize])"
  by (simp add: Initialize_def Cleanup_eq Let_def sapi_load_fails_def sapi_ok_def
      with_error_callback_def SetErrorCallback_def constructed_def not_FAILED_S_OK
      FAILED_E_FAIL nullptr_def report_error_def S_OK_neq_RPC_E_CHANGED_MODE)

theorem Initialize_failure_unwinds_witness:
  "uninitialized with_error_callback \<and> com_contract sapi_load_fails \<and>
   first_failed_step sapi_load_fails = Some step_LoadDictation \<and>
   (case Initialize sapi_load_fails with_error_callback of (ok, s', t) \<Rightarrow>
      \<not> ok \<and> releases t = [com_object 40, com_object 20, com_object 10, com_runtime] \<and>
      acquisitions t = [com_runtime, com_object 10, com_object 20, com_object 40] \<and>
      uninitialized s' \<and>
      callback_calls t = [error_call 7 msg_load_dictation_failed])"
proof -
  have h1: "uninitialized with_error_callback"
    by (simp add: uninitialized_def constructed_def with_error_callback_def
        SetErrorCallback_def)
  have h2: "com_contract sapi_load_fails"
    by (simp add: com_contract_def out_ok_def sapi_load_fails_def sapi_ok_def nullptr_def
        not_FAILED_S_OK)
  have h3: "first_failed_step sapi_load_fails = Some step_LoadDictation"
    by (simp add: first_failed_step_def init_steps_def sapi_load_fails_def sapi_ok_def
        not_FAILED_S_OK FAILED_E_FAIL)
  have e: "error_callback with_error_callback = Some 7"
    by (simp add: with_error_callback_def SetErrorCallback_def)
  show ?thesis
    using h1 h2 h3 Initialize_failure_unwinds [OF h1 h2 h3]
    by (simp add: Initialize_load_fails e releases_def acquisitions_def SUCCEEDED_iff
        not_FAILED_S_OK FAILED_E_FAIL)
qed

section \<open>Initialize on a session that is already initialized\<close>

lemma Initialize_keeps_initialized:
  "is_initialized s \<Longrightarrow> Initialize api s = (True, s, [])"
  by (simp add: Initialize_def)

lemma Initialize_True_initialized:
  "Initialize api s = (True, s', t) \<Longrightarrow> is_initialized s'"
  by (auto simp: Initialize_def Cleanup_eq Let_def split: if_splits)

lemma StartListening_keeps_initialized:
  "is_initialized s \<Longrightarrow> is_initialized (fst (snd (StartListening api s)))"
  by (simp add: StartListening_def Let_def)

lemma StopListening_keeps_initialized:
  "is_initialized s \<Longrightarrow> is_initialized (fst (StopListening api s))"
  by (simp add: StopListening_def StopListening_signal_def StopListening_join_def Let_def)

lemma do_call_keeps_initialized:
  "is_initialized s \<Longrightarrow> is_initialized (fst (do_call c s))"
  by (cases c)
     (simp_all add: Initialize_keeps_initialized StartListening_keeps_initialized
        StopListening_keeps_initialized SetResultCallback_def SetErrorCallback_def
        SetStatusCallback_def)

lemma run_calls_keeps_initialized:
  "is_initialized s \<Longrightarrow> is_initialized (fst (run_calls cs s))"
proof (induction cs arbitrary: s)
  case Nil
  then show ?case by simp
next
  case (Cons c cs)
  from Cons.prems have "is_initialized (fst (do_call c s))"
    by (rule do_call_keeps_initialized)
  then have "is_initialized (fst (run_calls cs (fst (do_call c s))))"
    by (rule Cons.IH)
  then show ?case by (simp add: split_beta Let_def)
qed

lemma Initialize_ok:
  "Initialize sapi_ok with_error_callback =
     (True, initialized_session,
      [CoInitializeEx S_OK, CoCreateInstance S_OK 10, CreateRecoContext 10 S_OK 20,
       SetInterest 20 S_OK, GetNotifyEventHandle 20 30, CreateGrammar 20 S_OK 40,
       LoadDictation 40 S_OK, slot_read status_slot])"
  by (simp add: Initialize_def Let_def sapi_ok_def initialized_session_def
      with_error_callback_def SetErrorCallback_def constructed_def not_FAILED_S_OK
      nullptr_def report_status_def S_OK_neq_RPC_E_CHANGED_MODE)

lemma start_stop:
  "run_calls [call_StartListening sapi_ok, call_StopListening sapi_ok] initialized_session =
     (stopped_session,
      [SetDictationState 40 SPRS_ACTIVE S_OK, thread_start, slot_read status_slot,
       SetDictationState 40 SPRS_INACTIVE S_OK, thread_join, slot_read status_slot])"
  by (simp add: StartListening_def StopListening_def StopListening_signal_def
      StopListening_join_def Let_def sapi_ok_def initialized_session_def stopped_session_def
      not_FAILED_S_OK nullptr_def report_status_def)

text \<open>
  Claim C6. Once a call of \<^verbatim>\<open>Initialize\<close> has returned true, a later call, after
  any sequence of calls of the public member functions and whatever the engine would
  answer, returns true, leaves the object as it is and has no effect at all: no
  native call, no acquisition, no callback.
\<close>

theorem Initialize_idempotent:
  assumes "Initialize api s = (True, s1, t1)" and "run_calls cs s1 = (s2, t2)"
  shows "Initialize api' s2 = (True, s2, [])"
proof -
  have "is_initialized s1" using assms(1) by (rule Initialize_True_initialized)
  then have "is_initialized (fst (run_calls cs s1))" by (rule run_calls_keeps_initialized)
  then have "is_initialized s2" using assms(2) by simp
  then show ?thesis by (rule Initialize_keeps_initialized)
qed

theorem Initialize_idempotent_witness:
  "Initialize sapi_ok with_error_callback =
     (True, initialized_session,
      [CoInitializeEx S_OK, CoCreateInstance S_OK 10, CreateRecoContext 10 S_OK 20,
       SetInterest 20 S_OK, GetNotifyEventHandle 20 30, CreateGrammar 20 S_OK 40,
       LoadDictation 40 S_OK, slot_read status_slot]) \<and>
   fst (run_calls [call_StartListening sapi_ok, call_StopListening sapi_ok]
          initialized_session) = stopped_session \<and>
   Initialize sapi_load_fails stopped_session = (True, stopped_session, [])"
proof -
  have "fst (run_calls [call_StartListening sapi_ok, call_StopListening sapi_ok]
               initialized_session) = stopped_session"
    by (simp only: start_stop fst_conv)
  then show ?thesis
    using Initialize_ok Initialize_idempotent [OF Initialize_ok start_stop, of sapi_load_fails]
    by blast
qed

section \<open>StartListening\<close>

lemma Initialize_no_thread: "thread_start \<notin> set (snd (snd (Initialize api s)))"
  by (auto simp: Initialize_def Cleanup_eq Let_def report_error_def report_status_def
      split: option.splits)

lemma Initialize_thread_unchanged:
  "recognition_thread (fst (snd (Initialize api s))) = recognition_thread s"
  by (auto simp: Initialize_def Cleanup_eq Let_def)

text \<open>
  Claim C7. On a session that is not initialized, \<^verbatim>\<open>StartListening\<close> begins with
  everything \<^verbatim>\<open>Initialize\<close> does; when that \<^verbatim>\<open>Initialize\<close> returns false,
  \<^verbatim>\<open>StartListening\<close> returns false with the object and the effects of
  \<^verbatim>\<open>Initialize\<close> and nothing more: no thread is started and the thread member is
  as before.
\<close>

theorem StartListening_implicit_Initialize:
  assumes "\<not> is_initialized s"
  shows "case Initialize api s of (ok, s1, t1) \<Rightarrow>
           (\<exists>t2. snd (snd (StartListening api s)) = t1 @ t2) \<and>
           (\<not> ok \<longrightarrow> StartListening api s = (False, s1, t1) \<and> thread_start \<notin> set t1 \<and>
              recognition_thread s1 = recognition_thread s)"
  using assms Initialize_no_thread [of api s] Initialize_thread_unchanged [of api s]
  by (auto simp: StartListening_def Let_def split: prod.splits)

theorem StartListening_implicit_Initialize_witness:
  "\<not> is_initialized with_error_callback \<and>
   fst (Initialize sapi_load_fails with_error_callback) = False \<and>
   StartListening sapi_load_fails with_error_callback =
     Initialize sapi_load_fails with_error_callback \<and>
   thread_start \<notin> set (snd (snd (StartListening sapi_load_fails with_error_callback)))"
proof -
  have h: "\<not> is_initialized with_error_callback"
    by (simp add: with_error_callback_def SetErrorCallback_def constructed_def)
  show ?thesis
    using h StartListening_implicit_Initialize [OF h, of sapi_load_fails]
    by (simp add: Initialize_load_fails)
qed

text \<open>
  Claim C8. On a session that is initialized and not listening, when activating the
  dictation grammar fails, \<^verbatim>\<open>StartListening\<close> returns false, the object is exactly
  as before (flags, thread member and native handles included), and all it did was
  the failed activation and the error report: the error slot read, and the callable
  in it invoked when there is one. No thread is started.
\<close>

theorem StartListening_activation_failure:
  assumes "is_initialized s" and "\<not> is_listening s"
    and "FAILED (SetDictationState_hr api SPRS_ACTIVE)"
  shows "StartListening api s =
           (False, s,
            SetDictationState (grammar s) SPRS_ACTIVE (SetDictationState_hr api SPRS_ACTIVE) #
            slot_read error_slot #
            (case error_callback s of None \<Rightarrow> [] | Some f \<Rightarrow> [error_call f msg_activate_failed]))"
  using assms by (simp add: StartListening_def Let_def report_error_def)

theorem StartListening_activation_failure_witness:
  "is_initialized initialized_session \<and> \<not> is_listening initialized_session \<and>
   FAILED (SetDictationState_hr sapi_activate_fails SPRS_ACTIVE) \<and>
   StartListening sapi_activate_fails initialized_session =
     (False, initialized_session,
      [SetDictationState 40 SPRS_ACTIVE E_FAIL, slot_read error_slot,
       error_call 7 msg_activate_failed])"
proof -
  have h1: "is_initialized initialized_session"
    and h2: "\<not> is_listening initialized_session"
    by (simp_all add: initialized_session_def)
  have h3: "FAILED (SetDictationState_hr sapi_activate_fails SPRS_ACTIVE)"
    by (simp add: sapi_activate_fails_def FAILED_E_FAIL)
  show ?thesis
    using h1 h2 h3 StartListening_activation_failure [OF h1 h2 h3]
    by (simp add: initialized_session_def sapi_activate_fails_def)
qed

section \<open>The loop body of the polling thread\<close>

lemma bytes_hi: "char_of (104 :: nat) = CHR ''h''" "char_of (105 :: nat) = CHR ''i''"
  by code_simp+

lemma extracted_recognized: "extracted_text sapi_ok recognized_event = Some ''hi''"
  by (simp add: extracted_text_def has_object_def recognized_event_def sapi_ok_def
      nullptr_def SUCCEEDED_iff not_FAILED_S_OK WideToUtf8_def bytes_hi)

lemma extracted_empty: "extracted_text sapi_empty_text recognized_event = Some []"
  by (simp add: extracted_text_def has_object_def recognized_event_def sapi_ok_def
      sapi_empty_text_def nullptr_def SUCCEEDED_iff not_FAILED_S_OK WideToUtf8_def)

text \<open>
  Claim C10. A recognition or false recognition whose parameter is null or is not
  typed as an object makes the loop body do nothing, neither a callback nor a
  release, and the inner loop goes on to the next call of \<^verbatim>\<open>GetEvents\<close>.
\<close>

theorem process_event_without_object:
  assumes "eEventId ev = SPEI_RECOGNITION \<or> eEventId ev = SPEI_FALSE_RECOGNITION"
    and "\<not> has_object ev"
  shows "process_event api s ev = [] \<and>
         (reply_hr r = S_OK \<and> 0 < fetched r \<and> event r = ev \<longrightarrow>
            drain_events api s (r # rs) =
              GetEvents (context s) S_OK (fetched r) # drain_events api s rs)"
  using assms by (auto simp: process_event_def has_object_def)

theorem process_event_without_object_witness:
  "eEventId detached_event = SPEI_RECOGNITION \<and> \<not> has_object detached_event \<and>
   process_event sapi_ok listening_session detached_event = [] \<and>
   drain_events sapi_ok listening_session
     [\<lparr>reply_hr = S_OK, fetched = 1, event = detached_event\<rparr>,
      \<lparr>reply_hr = S_OK, fetched = 1, event = rejected_event\<rparr>] =
     [GetEvents 20 S_OK 1, GetEvents 20 S_OK 1, Release 51, GetEvents 20 S_FALSE 0]"
proof -
  have h1: "eEventId detached_event = SPEI_RECOGNITION \<or>
            eEventId detached_event = SPEI_FALSE_RECOGNITION"
    by (simp add: detached_event_def)
  have h2: "\<not> has_object detached_event"
    by (simp add: has_object_def detached_event_def)
  have e: "process_event sapi_ok listening_session rejected_event = [Release 51]"
    by (simp add: process_event_def rejected_event_def nullptr_def)
  have c: "context listening_session = 20"
    by (simp add: listening_session_def initialized_session_def)
  show ?thesis
    using h1 h2 process_event_without_object
            [OF h1 h2, of sapi_ok listening_session
               "\<lparr>reply_hr = S_OK, fetched = 1, event = detached_event\<rparr>"
               "[\<lparr>reply_hr = S_OK, fetched = 1, event = rejected_event\<rparr>]"]
    by (simp add: e c detached_event_def)
qed

section \<open>Teardown\<close>

lemma com_acquired_append [simp]: "com_acquired (t @ u) = com_acquired t + com_acquired u"
  by (simp add: com_acquired_def acquisitions_def)

lemma com_released_append [simp]: "com_released (t @ u) = com_released t + com_released u"
  by (simp add: com_released_def releases_def)

lemma releases_append [simp]: "releases (t @ u) = releases t @ releases u"
  by (simp add: releases_def)

lemma com_acquired_Nil [simp]: "com_acquired [] = 0"
  by (simp add: com_acquired_def acquisitions_def)

lemma com_released_Nil [simp]: "com_released [] = 0"
  by (simp add: com_released_def releases_def)

lemma releases_Nil [simp]: "releases [] = []"
  by (simp add: releases_def)

lemma com_acquired_Cons [simp]:
  "com_acquired (e # t) = count_list (acquired e) com_runtime + com_acquired t"
  by (simp add: com_acquired_def acquisitions_def)

lemma com_released_Cons [simp]:
  "com_released (e # t) = count_list (released e) com_runtime + com_released t"
  by (simp add: com_released_def releases_def)

lemma releases_Cons [simp]: "releases (e # t) = released e @ releases t"
  by (simp add: releases_def)

lemma com_report_error [simp]:
  "com_acquired (report_error s m) = 0" "com_released (report_error s m) = 0"
  "releases (report_error s m) = []" "filter is_CloseHandle (report_error s m) = []"
  by (auto simp: report_error_def com_acquired_def com_released_def acquisitions_def
      releases_def split: option.splits)

lemma com_report_status [simp]:
  "com_acquired (report_status s m) = 0" "com_released (report_status s m) = 0"
  "releases (report_status s m) = []" "filter is_CloseHandle (report_status s m) = []"
  by (auto simp: report_status_def com_acquired_def com_released_def acquisitions_def
      releases_def split: option.splits)

lemma Initialize_com:
  assumes "com_flag_ok s"
  shows "com_flag_ok (fst (snd (Initialize api s))) \<and>
         com_acquired (snd (snd (Initialize api s))) + of_bool (com_initialized s) =
           com_released (snd (snd (Initialize api s))) +
           of_bool (com_initialized (fst (snd (Initialize api s)))) \<and>
         filter is_CloseHandle (snd (snd (Initialize api s))) = []"
  using assms
  by (auto simp: Initialize_def Cleanup_eq Let_def com_flag_ok_def com_acquired_def
      com_released_def acquisitions_def releases_def SUCCEEDED_iff FAILED_RPC_E_CHANGED_MODE
      report_error_def report_status_def split: option.splits)

lemma StartListening_com:
  assumes "com_flag_ok s"
  shows "com_flag_ok (fst (snd (StartListening api s))) \<and>
         com_acquired (snd (snd (StartListening api s))) + of_bool (com_initialized s) =
           com_released (snd (snd (StartListening api s))) +
           of_bool (com_initialized (fst (snd (StartListening api s)))) \<and>
         filter is_CloseHandle (snd (snd (StartListening api s))) = []"
proof (cases "is_initialized s")
  case True
  with assms show ?thesis
    by (simp add: StartListening_def Let_def com_flag_ok_def)
next
  case False
  obtain ok s1 t1 where i: "Initialize api s = (ok, s1, t1)"
    by (cases "Initialize api s") auto
  from Initialize_com [OF assms, of api] i
  have "com_flag_ok s1"
    and "com_acquired t1 + of_bool (com_initialized s) =
         com_released t1 + of_bool (com_initialized s1)"
    and "filter is_CloseHandle t1 = []"
    by simp_all
  with False i show ?thesis
    by (simp add: StartListening_def Let_def com_flag_ok_def)
qed

lemma StopListening_com:
  "com_flag_ok (fst (StopListening api s)) = com_flag_ok s \<and>
   com_initialized (fst (StopListening api s)) = com_initialized s \<and>
   grammar (fst (StopListening api s)) = grammar s \<and>
   context (fst (StopListening api s)) = context s \<and>
   recognizer (fst (StopListening api s)) = recognizer s \<and>
   com_acquired (snd (StopListening api s)) = 0 \<and>
   com_released (snd (StopListening api s)) = 0 \<and>
   releases (snd (StopListening api s)) = [] \<and>
   filter is_CloseHandle (snd (StopListening api s)) = []"
  by (simp add: StopListening_def StopListening_signal_def StopListening_join_def Let_def
      com_flag_ok_def)

lemma do_call_com:
  assumes "com_flag_ok s"
  shows "com_flag_ok (fst (do_call c s)) \<and>
         com_acquired (snd (do_call c s)) + of_bool (com_initialized s) =
           com_released (snd (do_call c s)) + of_bool (com_initialized (fst (do_call c s))) \<and>
         filter is_CloseHandle (snd (do_call c s)) = []"
proof (cases c)
  case (call_Initialize api)
  with Initialize_com [OF assms, of api] show ?thesis by simp
next
  case (call_StartListening api)
  with StartListening_com [OF assms, of api] show ?thesis by simp
next
  case (call_StopListening api)
  with assms StopListening_com [of api s] show ?thesis by simp
next
  case (call_SetResultCallback cb)
  with assms show ?thesis
    by (simp add: SetResultCallback_def com_flag_ok_def)
next
  case (call_SetErrorCallback cb)
  with assms show ?thesis
    by (simp add: SetErrorCallback_def com_flag_ok_def)
next
  case (call_SetStatusCallback cb)
  with assms show ?thesis
    by (simp add: SetStatusCallback_def com_flag_ok_def)
qed

lemma run_calls_com:
  assumes "com_flag_ok s"
  shows "com_flag_ok (fst (run_calls cs s)) \<and>
         com_acquired (snd (run_calls cs s)) + of_bool (com_initialized s) =
           com_released (snd (run_calls cs s)) + of_bool (com_initialized (fst (run_calls cs s))) \<and>
         filter is_CloseHandle (snd (run_calls cs s)) = []"
  using assms
proof (induction cs arbitrary: s)
  case Nil
  then show ?case by simp
next
  case (Cons c cs)
  obtain s1 t1 where c: "do_call c s = (s1, t1)" by (cases "do_call c s") auto
  obtain s2 t2 where r: "run_calls cs s1 = (s2, t2)" by (cases "run_calls cs s1") auto
  from do_call_com [OF Cons.prems, of c] c
  have 1: "com_flag_ok s1"
    and 2: "com_acquired t1 + of_bool (com_initialized s) =
            com_released t1 + of_bool (com_initialized s1)"
    and 3: "filter is_CloseHandle t1 = []"
    by simp_all
  from Cons.IH [OF 1] r
  have 4: "com_flag_ok s2"
    and 5: "com_acquired t2 + of_bool (com_initialized s1) =
            com_released t2 + of_bool (com_initialized s2)"
    and 6: "filter is_CloseHandle t2 = []"
    by simp_all
  from 2 4 5 3 6 c r show ?case by simp
qed

lemma destructor_eq:
  "destructor api s =
     ((fst (StopListening api s))
        \<lparr>recognizer := nullptr, context := nullptr, grammar := nullptr,
         recognition_event := nullptr, com_initialized := False\<rparr>,
      snd (StopListening api s) @
      (if grammar s \<noteq> nullptr then [Release (grammar s)] else []) @
      (if context s \<noteq> nullptr then [Release (context s)] else []) @
      (if recognizer s \<noteq> nullptr then [Release (recognizer s)] else []) @
      (if com_initialized s then [CoUninitialize] else []))"
proof -
  obtain s0 t0 where st: "StopListening api s = (s0, t0)"
    by (cases "StopListening api s") auto
  with StopListening_com [of api s]
  have "grammar s0 = grammar s" "context s0 = context s" "recognizer s0 = recognizer s"
    "com_initialized s0 = com_initialized s"
    by simp_all
  then show ?thesis
    by (cases s0) (simp add: destructor_def st)
qed

lemma Cleanup_releases: "releases (snd (Cleanup s)) = teardown_releases s"
  by (simp add: Cleanup_eq teardown_releases_def)

lemma destructor_releases: "releases (snd (destructor api s)) = teardown_releases s"
  using StopListening_com [of api s]
  by (simp add: destructor_eq teardown_releases_def)

lemma destructor_com:
  "com_acquired (snd (destructor api s)) = 0 \<and>
   com_released (snd (destructor api s)) = of_bool (com_initialized s) \<and>
   filter is_CloseHandle (snd (destructor api s)) = [] \<and>
   recognition_event (fst (destructor api s)) = nullptr"
  using StopListening_com [of api s]
  by (simp add: destructor_eq)

lemma com_flag_ok_constructed: "com_flag_ok constructed"
  by (simp add: com_flag_ok_def constructed_def)

text \<open>
  Claim C9, as amended. The destructor and \<^verbatim>\<open>Cleanup\<close> release the objects still
  held in the order grammar, context, recognizer; they clear the wait handle and never
  close it; and they call \<^verbatim>\<open>CoUninitialize\<close> only when \<^verbatim>\<open>com_initialized_\<close>
  is set. Over the life of a session, from construction through any calls to
  destruction, the calls of \<^verbatim>\<open>CoUninitialize\<close> are as many as the calls of
  \<^verbatim>\<open>CoInitializeEx\<close> that succeeded: one for each of those, and none for an
  \<^verbatim>\<open>Initialize\<close> that went on after \<^verbatim>\<open>RPC_E_CHANGED_MODE\<close>.
\<close>

theorem teardown_order_and_balance:
  assumes "run_calls cs constructed = (s, t)" and "destructor api s = (s', t')"
  shows "releases t' = teardown_releases s \<and>
         releases (snd (Cleanup s0)) = teardown_releases s0 \<and>
         recognition_event s' = nullptr \<and>
         recognition_event (fst (Cleanup s0)) = nullptr \<and>
         filter is_CloseHandle (t @ t') = [] \<and>
         filter is_CloseHandle (snd (Cleanup s0)) = [] \<and>
         com_released (t @ t') = com_acquired (t @ t')"
proof -
  from run_calls_com [OF com_flag_ok_constructed, of cs] assms(1)
  have b: "com_acquired t = com_released t + of_bool (com_initialized s)"
    and c: "filter is_CloseHandle t = []"
    by (simp_all add: constructed_def)
  from destructor_com [of api s] assms(2)
  have d: "com_acquired t' = 0" "com_released t' = of_bool (com_initialized s)"
    "filter is_CloseHandle t' = []" "recognition_event s' = nullptr"
    by simp_all
  have e: "releases t' = teardown_releases s"
    using destructor_releases [of api s] assms(2) by simp
  have f: "filter is_CloseHandle (snd (Cleanup s0)) = []"
    "recognition_event (fst (Cleanup s0)) = nullptr"
    by (simp_all add: Cleanup_eq)
  from b c d e f show ?thesis
    by (simp add: Cleanup_releases)
qed

text \<open>
  The claim as first stated, one \<^verbatim>\<open>CoUninitialize\<close> for each successful
  \<^verbatim>\<open>Initialize\<close>, fails when \<^verbatim>\<open>CoInitializeEx\<close> answers
  \<^verbatim>\<open>RPC_E_CHANGED_MODE\<close>: \<^verbatim>\<open>Initialize\<close> returns true and the destructor
  does not call \<^verbatim>\<open>CoUninitialize\<close>.
\<close>

lemma Initialize_changed_mode:
  "Initialize sapi_changed_mode constructed =
     (True, changed_mode_session,
      [CoInitializeEx RPC_E_CHANGED_MODE, CoCreateInstance S_OK 10,
       CreateRecoContext 10 S_OK 20, SetInterest 20 S_OK, GetNotifyEventHandle 20 30,
       CreateGrammar 20 S_OK 40, LoadDictation 40 S_OK, slot_read status_slot])"
  by (simp add: Initialize_def Let_def sapi_ok_def sapi_changed_mode_def
      changed_mode_session_def constructed_def not_FAILED_S_OK nullptr_def report_status_def)

lemma destructor_changed_mode:
  "destructor sapi_ok changed_mode_session =
     (torn_down_session, [Release 40, Release 20, Release 10])"
  by (simp add: destructor_def StopListening_def Let_def changed_mode_session_def
      torn_down_session_def constructed_def nullptr_def)

theorem teardown_com_once_counterexample:
  "Initialize sapi_changed_mode constructed =
     (True, changed_mode_session,
      [CoInitializeEx RPC_E_CHANGED_MODE, CoCreateInstance S_OK 10,
       CreateRecoContext 10 S_OK 20, SetInterest 20 S_OK, GetNotifyEventHandle 20 30,
       CreateGrammar 20 S_OK 40, LoadDictation 40 S_OK, slot_read status_slot]) \<and>
   destructor sapi_ok changed_mode_session =
     (torn_down_session, [Release 40, Release 20, Release 10]) \<and>
   count_list (snd (destructor sapi_ok changed_mode_session)) CoUninitialize = 0"
  by (simp add: Initialize_changed_mode destructor_changed_mode)

lemma SetErrorCallback_constructed:
  "SetErrorCallback (Some 7) constructed =
     (with_error_callback, [mutex_lock, slot_write error_slot, mutex_unlock])"
  by (simp add: with_error_callback_def SetErrorCallback_def)

lemma run_calls_lifecycle:
  "run_calls [call_SetErrorCallback (Some 7), call_Initialize sapi_ok] constructed =
     (initialized_session,
      [mutex_lock, slot_write error_slot, mutex_unlock,
       CoInitializeEx S_OK, CoCreateInstance S_OK 10, CreateRecoContext 10 S_OK 20,
       SetInterest 20 S_OK, GetNotifyEventHandle 20 30, CreateGrammar 20 S_OK 40,
       LoadDictation 40 S_OK, slot_read status_slot])"
  by (simp add: SetErrorCallback_constructed Initialize_ok)

lemma destructor_initialized:
  "destructor sapi_ok initialized_session =
     (destroyed_session, [Release 40, Release 20, Release 10, CoUninitialize])"
  by (simp add: destructor_def StopListening_def Let_def initialized_session_def
      destroyed_session_def nullptr_def)

theorem teardown_order_and_balance_witness:
  "run_calls [call_SetErrorCallback (Some 7), call_Initialize sapi_ok] constructed =
     (initialized_session,
      [mutex_lock, slot_write error_slot, mutex_unlock,
       CoInitializeEx S_OK, CoCreateInstance S_OK 10, CreateRecoContext 10 S_OK 20,
       SetInterest 20 S_OK, GetNotifyEventHandle 20 30, CreateGrammar 20 S_OK 40,
       LoadDictation 40 S_OK, slot_read status_slot]) \<and>
   destructor sapi_ok initialized_session =
     (destroyed_session, [Release 40, Release 20, Release 10, CoUninitialize]) \<and>
   teardown_releases initialized_session =
     [com_object 40, com_object 20, com_object 10, com_runtime] \<and>
   recognition_event destroyed_session = nullptr \<and>
   com_released
     ([mutex_lock, slot_write error_slot, mutex_unlock,
       CoInitializeEx S_OK, CoCreateInstance S_OK 10, CreateRecoContext 10 S_OK 20,
       SetInterest 20 S_OK, GetNotifyEventHandle 20 30, CreateGrammar 20 S_OK 40,
       LoadDictation 40 S_OK, slot_read status_slot] @
      [Release 40, Release 20, Release 10, CoUninitialize]) = 1"
proof -
  note r = teardown_order_and_balance [OF run_calls_lifecycle destructor_initialized]
  have a: "teardown_releases initialized_session =
             [com_object 40, com_object 20, com_object 10, com_runtime]"
    by (simp add: teardown_releases_def initialized_session_def nullptr_def)
  have b: "recognition_event destroyed_session = nullptr"
    by (simp add: destroyed_session_def)
  have c: "com_released
     ([mutex_lock, slot_write error_slot, mutex_unlock,
       CoInitializeEx S_OK, CoCreateInstance S_OK 10, CreateRecoContext 10 S_OK 20,
       SetInterest 20 S_OK, GetNotifyEventHandle 20 30, CreateGrammar 20 S_OK 40,
       LoadDictation 40 S_OK, slot_read status_slot] @
      [Release 40, Release 20, Release 10, CoUninitialize]) = 1"
    using r by (simp add: SUCCEEDED_iff not_FAILED_S_OK)
  from run_calls_lifecycle destructor_initialized a b c show ?thesis
    by blast
qed

section \<open>Which accesses to the callback slots hold the mutex\<close>









section \<open>The events the polling loop drains\<close>

lemma callback_calls_append: "callback_calls (t @ u) = callback_calls t @ callback_calls u"
  by (simp add: callback_calls_def)

lemma callback_calls_process_event:
  "callback_calls (process_event api s ev) = expected_calls api s ev"
  by (auto simp: process_event_def expected_calls_def extracted_text_def has_object_def
      callback_calls_def Let_def split: prod.splits option.splits)

lemma releases_process_event: "releases (process_event api s ev) = attached_object ev"
  by (auto simp: process_event_def attached_object_def has_object_def Let_def
      split: prod.splits option.splits)

lemma drained_Nil: "drained [] = []"
  by (simp add: drained_def)

lemma drained_Cons:
  "drained (r # rs) =
     (if reply_hr r = S_OK \<and> 0 < fetched r then event r # drained rs else [])"
  by (simp add: drained_def)

lemma callback_calls_drain_events:
  "callback_calls (drain_events api s rs) = concat (map (expected_calls api s) (drained rs))"
proof (induction rs)
  case Nil
  show ?case by (simp add: drained_Nil callback_calls_def)
next
  case (Cons r rs)
  show ?case
  proof (cases "reply_hr r = S_OK \<and> 0 < fetched r")
    case True
    then have "callback_calls (drain_events api s (r # rs)) =
                 callback_calls (process_event api s (event r)) @
                 callback_calls (drain_events api s rs)"
      by (simp add: callback_calls_def)
    with True show ?thesis
      by (simp add: Cons.IH callback_calls_process_event drained_Cons)
  next
    case False
    then show ?thesis
      by (auto simp: callback_calls_def drained_Cons)
  qed
qed

lemma releases_drain_events:
  "releases (drain_events api s rs) = concat (map attached_object (drained rs))"
proof (induction rs)
  case Nil
  show ?case by (simp add: drained_Nil)
next
  case (Cons r rs)
  show ?case
  proof (cases "reply_hr r = S_OK \<and> 0 < fetched r")
    case True
    with Cons.IH show ?thesis
      by (simp add: releases_process_event drained_Cons)
  next
    case False
    then show ?thesis
      by (auto simp: drained_Cons)
  qed
qed

lemma callback_calls_poll_once:
  "callback_calls (poll_once api s result rs) =
     (if result = WAIT_OBJECT_0 then concat (map (expected_calls api s) (drained rs)) else [])"
proof -
  have "callback_calls (poll_once api s result rs) =
          (if result = WAIT_OBJECT_0 then callback_calls (drain_events api s rs) else [])"
    by (simp add: poll_once_def callback_calls_def)
  then show ?thesis by (simp add: callback_calls_drain_events)
qed

lemma releases_poll_once:
  "releases (poll_once api s result rs) =
     (if result = WAIT_OBJECT_0 then concat (map attached_object (drained rs)) else [])"
  by (simp add: poll_once_def releases_drain_events)

lemma snd_by_thread: "map snd (by_thread th t) = t"
  by (simp add: by_thread_def comp_def)

lemma step_get_events:
  assumes "polling w = pc_get_events"
  shows "\<exists>w' l. step (act_get_events api r) w = Some (w', l) \<and> session w' = session w \<and>
           callback_calls (map snd l) =
             concat (map (expected_calls api (session w)) (drained [r])) \<and>
           releases (map snd l) = concat (map attached_object (drained [r]))"
proof (cases "reply_hr r = S_OK \<and> 0 < fetched r")
  case True
  have "callback_calls
          (GetEvents (context (session w)) (reply_hr r) (fetched r) #
           process_event api (session w) (event r)) =
        callback_calls (process_event api (session w) (event r))"
    by (simp add: callback_calls_def)
  with assms True show ?thesis
    by (simp add: snd_by_thread drained_Cons drained_Nil callback_calls_process_event
        releases_process_event)
next
  case False
  with assms show ?thesis
    by (auto simp: snd_by_thread drained_Cons callback_calls_def)
qed

lemma count_Release:
  "count_list t (Release p) = count_list (releases t) (com_object p)"
proof (induction t)
  case Nil
  show ?case by simp
next
  case (Cons e t)
  then show ?case by (cases e) simp_all
qed

lemma distinct_count_list:
  "distinct xs \<Longrightarrow> x \<in> set xs \<Longrightarrow> count_list xs x = 1"
  by (induction xs) auto

lemma attached_in_drained:
  assumes "ev \<in> set (drained rs)" and "has_object ev"
  shows "com_object (lParam ev) \<in> set (concat (map attached_object (drained rs)))"
  using assms by (auto simp: attached_object_def)

lemma drained_queued_replies:
  "drained queued_replies = [recognized_event, rejected_event, detached_event]"
  by (simp add: queued_replies_def drained_Cons drained_Nil reply_with_def)

lemma extracted_text_fails: "extracted_text sapi_text_fails recognized_event = None"
  by (simp add: extracted_text_def has_object_def recognized_event_def sapi_ok_def
      sapi_text_fails_def nullptr_def)

lemma extracted_other:
  "extracted_text api rejected_event = None" "extracted_text api detached_event = None"
  by (simp_all add: extracted_text_def has_object_def rejected_event_def detached_event_def)

lemma attached_queued:
  "attached_object recognized_event = [com_object 50]"
  "attached_object rejected_event = [com_object 51]"
  "attached_object detached_event = []"
  by (simp_all add: attached_object_def has_object_def recognized_event_def
      rejected_event_def detached_event_def nullptr_def)

text \<open>
  Claim C4. The callback invocations of the inner loop, of one turn of the outer loop
  and of one step of the polling thread are exactly those expected of the events
  drained, one event after the other; the loop body makes them for each drained
  event. For a drained event: when it is a recognition whose extracted text is not
  empty, the invocation is the result callback, once, with that text and \<open>True\<close>
  (when one is registered; with an empty slot nothing is invoked); a false
  recognition invokes no callback; a recognition from which no text is extracted
  (\<^verbatim>\<open>GetText\<close> fails or gives no text) invokes no callback; a recognition whose
  extracted text is empty invokes no callback, and its object is released by the loop
  all the same.
\<close>

theorem drained_events_callbacks:
  "callback_calls (drain_events api s rs) = concat (map (expected_calls api s) (drained rs)) \<and>
   callback_calls (poll_once api s result rs) =
     (if result = WAIT_OBJECT_0 then concat (map (expected_calls api s) (drained rs)) else []) \<and>
   (polling w = pc_get_events \<longrightarrow>
      (\<exists>w' l. step (act_get_events api r) w = Some (w', l) \<and>
         callback_calls (map snd l) =
           concat (map (expected_calls api (session w)) (drained [r])))) \<and>
   (\<forall>ev \<in> set (drained rs).
      callback_calls (process_event api s ev) = expected_calls api s ev \<and>
      (extracted_text api ev = Some txt \<and> txt \<noteq> [] \<and> result_callback s = Some f \<longrightarrow>
         expected_calls api s ev = [result_call f txt True]) \<and>
      (result_callback s = None \<longrightarrow> expected_calls api s ev = []) \<and>
      (eEventId ev = SPEI_FALSE_RECOGNITION \<longrightarrow> expected_calls api s ev = []) \<and>
      (extracted_text api ev = None \<longrightarrow> expected_calls api s ev = []) \<and>
      (extracted_text api ev = Some [] \<longrightarrow>
         expected_calls api s ev = [] \<and>
         com_object (lParam ev) \<in> set (releases (drain_events api s rs))))"
proof -
  have body: "expected_calls api s ev = [result_call f txt True]"
    if "extracted_text api ev = Some txt" "txt \<noteq> []" "result_callback s = Some f" for ev
    using that by (simp add: expected_calls_def)
  have none: "expected_calls api s ev = []" if "result_callback s = None" for ev
    using that by (simp add: expected_calls_def split: option.splits)
  have rejected: "expected_calls api s ev = []" if "eEventId ev = SPEI_FALSE_RECOGNITION" for ev
    using that by (simp add: expected_calls_def extracted_text_def)
  have absent: "expected_calls api s ev = []" if "extracted_text api ev = None" for ev
    using that by (simp add: expected_calls_def)
  have empty: "expected_calls api s ev = [] \<and>
               com_object (lParam ev) \<in> set (releases (drain_events api s rs))"
    if "extracted_text api ev = Some []" "ev \<in> set (drained rs)" for ev
  proof -
    from that(1) have "has_object ev"
      by (auto simp: extracted_text_def split: if_splits)
    with that(2) have "com_object (lParam ev) \<in> set (releases (drain_events api s rs))"
      by (simp only: releases_drain_events attached_in_drained)
    moreover from that(1) have "expected_calls api s ev = []"
      by (simp add: expected_calls_def split: option.splits)
    ultimately show ?thesis by simp
  qed
  from step_get_events [of w api r]
  have st: "polling w = pc_get_events \<longrightarrow>
      (\<exists>w' l. step (act_get_events api r) w = Some (w', l) \<and>
         callback_calls (map snd l) =
           concat (map (expected_calls api (session w)) (drained [r])))"
    by blast
  show ?thesis
    using callback_calls_drain_events [of api s rs] callback_calls_poll_once [of api s result rs]
      st callback_calls_process_event body none rejected absent empty
    by blast
qed

theorem drained_events_callbacks_witness:
  "drained queued_replies = [recognized_event, rejected_event, detached_event] \<and>
   extracted_text sapi_ok recognized_event = Some ''hi'' \<and>
   result_callback listening_session = Some 5 \<and>
   callback_calls (drain_events sapi_ok listening_session queued_replies) =
     [result_call 5 ''hi'' True] \<and>
   callback_calls (poll_once sapi_ok listening_session WAIT_OBJECT_0 queued_replies) =
     [result_call 5 ''hi'' True] \<and>
   result_callback initialized_session = None \<and>
   callback_calls (drain_events sapi_ok initialized_session queued_replies) = [] \<and>
   extracted_text sapi_empty_text recognized_event = Some [] \<and>
   callback_calls (drain_events sapi_empty_text listening_session queued_replies) = [] \<and>
   com_object 50 \<in> set (releases (drain_events sapi_empty_text listening_session queued_replies)) \<and>
   extracted_text sapi_text_fails recognized_event = None \<and>
   callback_calls (drain_events sapi_text_fails listening_session queued_replies) = []"
proof -
  have c: "result_callback listening_session = Some 5"
    by (simp add: listening_session_def)
  have n: "result_callback initialized_session = None"
    by (simp add: initialized_session_def)
  have l: "lParam recognized_event = 50"
    by (simp add: recognized_event_def)
  note t1 = drained_events_callbacks
              [of sapi_ok listening_session queued_replies WAIT_OBJECT_0 listening_system
                  "reply_with recognized_event" "''hi''" 5]
  note t2 = drained_events_callbacks
              [of sapi_ok initialized_session queued_replies WAIT_OBJECT_0 listening_system
                  "reply_with recognized_event" "''hi''" 5]
  note t3 = drained_events_callbacks
              [of sapi_empty_text listening_session queued_replies WAIT_OBJECT_0
                  listening_system "reply_with recognized_event" "''hi''" 5]
  note t4 = drained_events_callbacks
              [of sapi_text_fails listening_session queued_replies WAIT_OBJECT_0
                  listening_system "reply_with recognized_event" "''hi''" 5]
  have 1: "callback_calls (drain_events sapi_ok listening_session queued_replies) =
             [result_call 5 ''hi'' True]"
    "callback_calls (poll_once sapi_ok listening_session WAIT_OBJECT_0 queued_replies) =
             [result_call 5 ''hi'' True]"
    using t1
    by (simp_all add: drained_queued_replies expected_calls_def extracted_recognized
        extracted_other c)
  have 2: "callback_calls (drain_events sapi_ok initialized_session queued_replies) = []"
    using t2
    by (simp add: drained_queued_replies expected_calls_def extracted_recognized
        extracted_other n)
  have 3: "callback_calls (drain_events sapi_empty_text listening_session queued_replies) = []"
    "com_object 50 \<in>
       set (releases (drain_events sapi_empty_text listening_session queued_replies))"
    using t3
    by (simp_all add: drained_queued_replies expected_calls_def extracted_empty
        extracted_other c l)
  have 4: "callback_calls (drain_events sapi_text_fails listening_session queued_replies) = []"
    using t4
    by (simp add: drained_queued_replies expected_calls_def extracted_text_fails
        extracted_other)
  from drained_queued_replies extracted_recognized extracted_empty extracted_text_fails
    c n 1 2 3 4
  show ?thesis by blast
qed

text \<open>
  Claim C5. The releases made by the inner loop, by one turn of the outer loop and by
  one step of the polling thread are exactly the objects attached to the events
  drained, one release for each such event, in the order of the events, whatever the
  kind of the event and whatever \<^verbatim>\<open>GetText\<close> answers. For a drained event with
  an attached object the loop body calls \<^verbatim>\<open>Release\<close> on it exactly once and
  releases nothing else; when the drained events carry different objects, each occurs
  in exactly one \<^verbatim>\<open>Release\<close> of the whole loop.
\<close>

theorem drained_events_released_once:
  "releases (drain_events api s rs) = concat (map attached_object (drained rs)) \<and>
   releases (poll_once api s result rs) =
     (if result = WAIT_OBJECT_0 then concat (map attached_object (drained rs)) else []) \<and>
   (polling w = pc_get_events \<longrightarrow>
      (\<exists>w' l. step (act_get_events api r) w = Some (w', l) \<and>
         releases (map snd l) = concat (map attached_object (drained [r])))) \<and>
   (\<forall>ev \<in> set (drained rs). has_object ev \<longrightarrow>
      attached_object ev = [com_object (lParam ev)] \<and>
      releases (process_event api s ev) = [com_object (lParam ev)] \<and>
      count_list (process_event api s ev) (Release (lParam ev)) = 1 \<and>
      (distinct (concat (map attached_object (drained rs))) \<longrightarrow>
         count_list (drain_events api s rs) (Release (lParam ev)) = 1))"
proof -
  have one: "attached_object ev = [com_object (lParam ev)] \<and>
             releases (process_event api s ev) = [com_object (lParam ev)] \<and>
             count_list (process_event api s ev) (Release (lParam ev)) = 1"
    if "has_object ev" for ev
    using that by (simp add: count_Release releases_process_event attached_object_def)
  have loop: "count_list (drain_events api s rs) (Release (lParam ev)) = 1"
    if "ev \<in> set (drained rs)" "has_object ev"
      "distinct (concat (map attached_object (drained rs)))" for ev
    using that
    by (simp only: count_Release releases_drain_events distinct_count_list attached_in_drained)
  from step_get_events [of w api r]
  have st: "polling w = pc_get_events \<longrightarrow>
      (\<exists>w' l. step (act_get_events api r) w = Some (w', l) \<and>
         releases (map snd l) = concat (map attached_object (drained [r])))"
    by blast
  show ?thesis
    using releases_drain_events [of api s rs] releases_poll_once [of api s result rs]
      st one loop
    by blast
qed

theorem drained_events_released_once_witness:
  "drained queued_replies = [recognized_event, rejected_event, detached_event] \<and>
   has_object recognized_event \<and> has_object rejected_event \<and>
   releases (drain_events sapi_ok listening_session queued_replies) =
     [com_object 50, com_object 51] \<and>
   releases (poll_once sapi_text_fails listening_session WAIT_OBJECT_0 queued_replies) =
     [com_object 50, com_object 51] \<and>
   count_list (drain_events sapi_ok listening_session queued_replies) (Release 50) = 1 \<and>
   count_list (drain_events sapi_text_fails listening_session queued_replies) (Release 50) = 1 \<and>
   count_list (drain_events sapi_ok listening_session queued_replies) (Release 51) = 1"
proof -
  have h: "has_object recognized_event" "has_object rejected_event"
    by (simp_all add: has_object_def recognized_event_def rejected_event_def nullptr_def)
  have l: "lParam recognized_event = 50" "lParam rejected_event = 51"
    by (simp_all add: recognized_event_def rejected_event_def)
  note t1 = drained_events_released_once
              [of sapi_ok listening_session queued_replies WAIT_OBJECT_0 listening_system
                  "reply_with recognized_event"]
  note t2 = drained_events_released_once
              [of sapi_text_fails listening_session queued_replies WAIT_OBJECT_0
                  listening_system "reply_with recognized_event"]
  have 1: "releases (drain_events sapi_ok listening_session queued_replies) =
             [com_object 50, com_object 51]"
    "count_list (drain_events sapi_ok listening_session queued_replies) (Release 50) = 1"
    "count_list (drain_events sapi_ok listening_session queued_replies) (Release 51) = 1"
    using t1 h
    by (simp_all add: drained_queued_replies attached_queued l)
  have 2: "releases (poll_once sapi_text_fails listening_session WAIT_OBJECT_0 queued_replies) =
             [com_object 50, com_object 51]"
    "count_list (drain_events sapi_text_fails listening_session queued_replies) (Release 50) = 1"
    using t2 h
    by (simp_all add: drained_queued_replies attached_queued l)
  from drained_queued_replies h 1 2 show ?thesis by blast
qed

section \<open>StopListening and the polling thread\<close>

text \<open>
  \<open>system_ok\<close> holds in every state the two threads can reach: the thread member
  is joinable exactly while the session is listening or the control thread waits at
  the join, and exactly then the polling thread exists.
\<close>

lemma thread_member_free:
  assumes "system_ok w" and "\<not> joining w" and "\<not> is_listening (session w)"
  shows "\<not> recognition_thread (session w)"
  using assms by (simp add: system_ok_def)

lemma Initialize_flags:
  "is_listening (fst (snd (Initialize api s))) = is_listening s \<and>
   should_stop (fst (snd (Initialize api s))) = should_stop s \<and>
   recognition_thread (fst (snd (Initialize api s))) = recognition_thread s"
  by (auto simp: Initialize_def Cleanup_eq Let_def)

lemma report_no_thread_start [simp]:
  "thread_start \<notin> set (report_error s m)" "thread_start \<notin> set (report_status s m)"
  by (auto simp: report_error_def report_status_def split: option.splits)

lemma StartListening_flags:
  "case StartListening api s of (ok, s1, t1) \<Rightarrow>
     (thread_start \<in> set t1) = (\<not> is_listening s \<and> is_listening s1) \<and>
     (is_listening s \<longrightarrow> is_listening s1) \<and>
     (if \<not> is_listening s \<and> is_listening s1
      then recognition_thread s1
      else recognition_thread s1 = recognition_thread s \<and> should_stop s1 = should_stop s)"
proof (cases "is_initialized s")
  case True
  then show ?thesis by (simp add: StartListening_def Let_def)
next
  case False
  obtain ok s0 t0 where i: "Initialize api s = (ok, s0, t0)"
    by (cases "Initialize api s") auto
  with Initialize_flags [where api = api and s = s]
    Initialize_no_thread [where api = api and s = s]
  have "is_listening s0 = is_listening s" "should_stop s0 = should_stop s"
    "recognition_thread s0 = recognition_thread s" "thread_start \<notin> set t0"
    by simp_all
  with False i show ?thesis by (simp add: StartListening_def Let_def)
qed

lemma step_call_ok:
  assumes "system_ok w" and "\<not> joining w"
  shows "system_ok (fst (step_call c w))"
proof (cases c)
  case (call_Initialize api)
  with assms Initialize_flags [where api = api and s = "session w"] show ?thesis
    by (simp add: system_ok_def split_beta)
next
  case (call_StartListening api)
  with assms StartListening_flags [where api = api and s = "session w"] show ?thesis
    by (auto simp: system_ok_def split_beta split: if_splits)
next
  case (call_StopListening api)
  with assms show ?thesis
    by (simp add: system_ok_def StopListening_signal_def Let_def)
next
  case (call_SetResultCallback cb)
  with assms show ?thesis by (simp add: system_ok_def SetResultCallback_def)
next
  case (call_SetErrorCallback cb)
  with assms show ?thesis by (simp add: system_ok_def SetErrorCallback_def)
next
  case (call_SetStatusCallback cb)
  with assms show ?thesis by (simp add: system_ok_def SetStatusCallback_def)
qed

lemma step_ok:
  assumes "system_ok w" and "step a w = Some (w', l)"
  shows "system_ok w'"
proof (cases a)
  case (act_call c)
  with assms step_call_ok [where w = w and c = c] show ?thesis
    by (auto split: if_splits)
next
  case act_join
  with assms show ?thesis
    by (auto simp: system_ok_def StopListening_join_def Let_def split: if_splits)
next
  case act_loop_test
  with assms show ?thesis by (auto simp: system_ok_def split: if_splits)
next
  case (act_wait result)
  with assms show ?thesis by (auto simp: system_ok_def split: if_splits)
next
  case (act_get_events api r)
  with assms show ?thesis by (auto simp: system_ok_def split: if_splits)
qed

lemma run_ok:
  assumes "system_ok w" and "run as w = Some (w', l)"
  shows "system_ok w'"
  using assms
proof (induction as arbitrary: w l)
  case Nil
  then show ?case by simp
next
  case (Cons a as)
  from Cons.prems(2) obtain w1 l1 w2 l2
    where s: "step a w = Some (w1, l1)" and r: "run as w1 = Some (w2, l2)" and e: "w' = w2"
    by (auto split: option.splits)
  from Cons.prems(1) s have "system_ok w1" by (rule step_ok)
  moreover from r e have "run as w1 = Some (w', l2)" by simp
  ultimately show ?case by (rule Cons.IH)
qed

lemma system_ok_started: "system_ok started"
  by (simp add: system_ok_def started_def constructed_def)

lemma by_control_no_polling: "(polling_thread, e) \<notin> set (by_thread control_thread t)"
  by (auto simp: by_thread_def)

lemma step_call_quiet:
  assumes "\<not> is_start (act_call c)"
  shows "polling (fst (step_call c w)) = polling w \<and>
         (polling_thread, e) \<notin> set (snd (step_call c w))"
  using assms
  by (cases c) (simp_all add: split_beta by_control_no_polling)

lemma step_quiet:
  assumes "polling w = pc_none" and "\<not> is_start a" and "step a w = Some (w', l)"
  shows "polling w' = pc_none \<and> (polling_thread, e) \<notin> set l"
proof (cases a)
  case (act_call c)
  with assms step_call_quiet [where c = c and w = w and e = e] show ?thesis
    by (auto split: if_splits)
next
  case act_join
  with assms show ?thesis
    by (auto simp: split_beta by_control_no_polling split: if_splits)
qed (use assms in simp_all)

lemma run_quiet:
  assumes "polling w = pc_none" and "\<forall>a \<in> set as. \<not> is_start a" and "run as w = Some (w', l)"
  shows "polling w' = pc_none \<and> (polling_thread, e) \<notin> set l"
  using assms
proof (induction as arbitrary: w l)
  case Nil
  then show ?case by simp
next
  case (Cons a as)
  from Cons.prems(3) obtain w1 l1 w2 l2
    where s: "step a w = Some (w1, l1)" and r: "run as w1 = Some (w2, l2)"
      and e: "w' = w2" "l = l1 @ l2"
    by (auto split: option.splits)
  from Cons.prems(1,2) s have 1: "polling w1 = pc_none \<and> (polling_thread, e) \<notin> set l1"
    using step_quiet [where w = w and a = a and w' = w1 and l = l1 and e = e] by simp
  from Cons.prems(2) have 2: "\<forall>a \<in> set as. \<not> is_start a" by simp
  from r e have 3: "run as w1 = Some (w', l2)" by simp
  from 1 have "polling w1 = pc_none" by simp
  then have "polling w' = pc_none \<and> (polling_thread, e) \<notin> set l2"
    using 2 3 by (rule Cons.IH)
  with 1 e show ?case by simp
qed

lemma join_step:
  assumes "system_ok w" and "step act_join w = Some (w', l)"
  shows "polling w = pc_returned \<and> (control_thread, thread_join) \<in> set l \<and>
         polling w' = pc_none"
  using assms
  by (auto simp: system_ok_def StopListening_join_def Let_def by_thread_def split: if_splits)

text \<open>
  Claim C1. In every execution of the two threads from the constructed object: when
  \<^verbatim>\<open>StopListening\<close> is called on a listening session it blocks at the join; when it
  returns, the polling thread has left \<^verbatim>\<open>RecognitionThread\<close> and the join has been
  made; and whatever is executed after that return, as long as it contains no call of
  \<^verbatim>\<open>StartListening\<close>, no effect of the polling thread occurs any more, so no
  invocation of a result or error callback from it.
\<close>

theorem StopListening_joins:
  assumes "run as1 started = Some (w1, l1)"
    and "is_listening (session w1)"
    and "step (act_call (call_StopListening api)) w1 = Some (w2, l2)"
    and "run as2 w2 = Some (w3, l3)"
    and "step act_join w3 = Some (w4, l4)"
    and "run as3 w4 = Some (w5, l5)"
    and "\<forall>a \<in> set as3. \<not> is_start a"
  shows "joining w2 \<and> polling w3 = pc_returned \<and>
         (control_thread, thread_join) \<in> set l4 \<and>
         (\<forall>e. (polling_thread, e) \<notin> set l5)"
proof -
  have 1: "system_ok w1" using system_ok_started assms(1) by (rule run_ok)
  then have 2: "system_ok w2" using assms(3) by (rule step_ok)
  then have 3: "system_ok w3" using assms(4) by (rule run_ok)
  from assms(2,3) have j: "joining w2"
    by (auto simp: split_beta split: if_splits)
  from 3 assms(5)
  have 4: "polling w3 = pc_returned \<and> (control_thread, thread_join) \<in> set l4 \<and>
           polling w4 = pc_none"
    by (rule join_step)
  then have "polling w4 = pc_none" by simp
  then have "\<forall>e. (polling_thread, e) \<notin> set l5"
    using assms(7,6) run_quiet [where w = w4 and as = as3 and w' = w5 and l = l5] by blast
  with j 4 show ?thesis by simp
qed

lemma S_FALSE_neq_S_OK: "S_FALSE \<noteq> S_OK"
  by (simp add: S_FALSE_def S_OK_def)

lemma sapi_ok_polling:
  "SetDictationState_hr sapi_ok st = S_OK"
  "GetText_reply sapi_ok p = (S_OK, Some [104, 105])"
  "WideCharToMultiByte sapi_ok = map (\<lambda>c. char_of (unat c))"
  by (simp_all add: sapi_ok_def)

lemma run_listen:
  "run schedule_listen started =
     Some (listening_system,
       by_thread control_thread
         [mutex_lock, slot_write error_slot, mutex_unlock,
          CoInitializeEx S_OK, CoCreateInstance S_OK 10, CreateRecoContext 10 S_OK 20,
          SetInterest 20 S_OK, GetNotifyEventHandle 20 30, CreateGrammar 20 S_OK 40,
          LoadDictation 40 S_OK, slot_read status_slot,
          mutex_lock, slot_write result_slot, mutex_unlock,
          SetDictationState 40 SPRS_ACTIVE S_OK, thread_start, slot_read status_slot] @
       by_thread polling_thread
         [WaitForSingleObject 30 WAIT_OBJECT_0, GetEvents 20 S_OK 1,
          GetText 50 S_OK (Some [104, 105]), mutex_lock, slot_read result_slot,
          result_call 5 ''hi'' True, CoTaskMemFree (Some [104, 105]), mutex_unlock,
          Release 50])"
  by (simp add: schedule_listen_def started_def listening_system_def by_thread_def
      SetErrorCallback_constructed Initialize_ok SetResultCallback_def StartListening_def
      Let_def initialized_session_def listening_session_def sapi_ok_polling not_FAILED_S_OK
      report_status_def reply_with_def process_event_def recognized_event_def nullptr_def
      SUCCEEDED_iff WideToUtf8_def bytes_hi)

lemma step_stop:
  "step (act_call (call_StopListening sapi_ok)) listening_system =
     Some (stopping_system,
           by_thread control_thread [SetDictationState 40 SPRS_INACTIVE S_OK])"
  by (simp add: listening_system_def stopping_system_def by_thread_def
      StopListening_signal_def Let_def listening_session_def initialized_session_def
      sapi_ok_def nullptr_def)

lemma run_exit:
  "run schedule_exit stopping_system =
     Some (returned_system, by_thread polling_thread [GetEvents 20 S_FALSE 0])"
  by (simp add: schedule_exit_def stopping_system_def returned_system_def by_thread_def
      reply_empty_def S_FALSE_neq_S_OK listening_session_def initialized_session_def)

lemma step_join:
  "step act_join returned_system =
     Some (stopped_system, by_thread control_thread [thread_join, slot_read status_slot])"
  by (simp add: returned_system_def stopping_system_def stopped_system_def by_thread_def
      StopListening_join_def Let_def report_status_def listening_session_def
      initialized_session_def)

lemma run_after:
  "run schedule_after stopped_system =
     Some (final_system,
           by_thread control_thread [mutex_lock, slot_write result_slot, mutex_unlock])"
  by (simp add: schedule_after_def stopped_system_def final_system_def by_thread_def
      SetResultCallback_def listening_session_def initialized_session_def)

theorem StopListening_joins_witness:
  "run schedule_listen started =
     Some (listening_system,
       by_thread control_thread
         [mutex_lock, slot_write error_slot, mutex_unlock,
          CoInitializeEx S_OK, CoCreateInstance S_OK 10, CreateRecoContext 10 S_OK 20,
          SetInterest 20 S_OK, GetNotifyEventHandle 20 30, CreateGrammar 20 S_OK 40,
          LoadDictation 40 S_OK, slot_read status_slot,
          mutex_lock, slot_write result_slot, mutex_unlock,
          SetDictationState 40 SPRS_ACTIVE S_OK, thread_start, slot_read status_slot] @
       by_thread polling_thread
         [WaitForSingleObject 30 WAIT_OBJECT_0, GetEvents 20 S_OK 1,
          GetText 50 S_OK (Some [104, 105]), mutex_lock, slot_read result_slot,
          result_call 5 ''hi'' True, CoTaskMemFree (Some [104, 105]), mutex_unlock,
          Release 50]) \<and>
   is_listening (session listening_system) \<and>
   step (act_call (call_StopListening sapi_ok)) listening_system =
     Some (stopping_system,
           by_thread control_thread [SetDictationState 40 SPRS_INACTIVE S_OK]) \<and>
   run schedule_exit stopping_system =
     Some (returned_system, by_thread polling_thread [GetEvents 20 S_FALSE 0]) \<and>
   step act_join returned_system =
     Some (stopped_system, by_thread control_thread [thread_join, slot_read status_slot]) \<and>
   run schedule_after stopped_system =
     Some (final_system,
           by_thread control_thread [mutex_lock, slot_write result_slot, mutex_unlock]) \<and>
   filter is_start schedule_after = [] \<and>
   joining stopping_system \<and> polling returned_system = pc_returned \<and>
   (control_thread, thread_join) \<in>
     set (by_thread control_thread [thread_join, slot_read status_slot]) \<and>
   (\<forall>e. (polling_thread, e) \<notin>
      set (by_thread control_thread [mutex_lock, slot_write result_slot, mutex_unlock]))"
proof -
  have l: "is_listening (session listening_system)"
    by (simp add: listening_system_def listening_session_def)
  have n: "\<forall>a \<in> set schedule_after. \<not> is_start a"
    by (simp add: schedule_after_def)
  have f: "filter is_start schedule_after = []"
    by (simp add: schedule_after_def)
  from l f run_listen step_stop run_exit step_join run_after
    StopListening_joins [OF run_listen l step_stop run_exit step_join run_after n]
  show ?thesis by blast
qed

text \<open>
  The blocked \<^verbatim>\<open>StopListening\<close> can always return: from wherever the polling
  thread stands, once \<^verbatim>\<open>GetEvents\<close> delivers nothing more and the wait times
  out, the thread sees the stop flag and returns, and the join completes.
\<close>

lemma WAIT_TIMEOUT_neq_WAIT_OBJECT_0: "WAIT_TIMEOUT \<noteq> WAIT_OBJECT_0"
  by (simp add: WAIT_TIMEOUT_def WAIT_OBJECT_0_def)

lemma StopListening_can_return:
  assumes "system_ok w" and "joining w"
  shows "\<exists>w' l. run (exit_schedule (polling w)) w = Some (w', l) \<and>
                 session w' = session w \<and> step act_join w' \<noteq> None"
  using assms
  by (cases "polling w")
     (auto simp: system_ok_def reply_empty_def S_FALSE_neq_S_OK
        WAIT_TIMEOUT_neq_WAIT_OBJECT_0 split_beta)

end
